theory Spec2Isabelle
  imports Complex_Main "HOL-Library.Char_ord" "HOL-Library.List_Lexorder" "HOL-Library.Multiset"
    "HOL-Library.Sublist" "HOL-Library.Product_Lexorder"
begin

section \<open>Common data\<close>

text \<open>
  Python exceptions that the modelled functions can let escape.  A function that may raise
  returns \<open>error + 'a\<close>, with \<open>Inl\<close> for the exception.
\<close>

datatype error = TypeError | ValueError | OverflowError | ArgumentError

text \<open>
  A naive \<open>datetime\<close> is kept as its position on the time line: the number of microseconds
  since 0001-01-01T00:00:00.  Python orders and subtracts datetimes exactly this way.
  \<open>datetime.max\<close> is 9999-12-31T23:59:59.999999; arithmetic leaving the range raises
  \<open>OverflowError\<close>.
\<close>

type_synonym datetime = int

definition us_per_day :: int where
  "us_per_day = 86400000000"

definition datetime_limit :: int where
  "datetime_limit = 3652059 * 86400000000"

definition timedelta_days :: "int \<Rightarrow> error + int" where
  \<comment> \<open>\<open>timedelta(days=d)\<close>, in microseconds; the constructor refuses more than 999999999 days\<close>
  "timedelta_days d =
     (if \<bar>d\<bar> > 999999999 then Inl OverflowError else Inr (d * us_per_day))"

definition datetime_add :: "datetime \<Rightarrow> int \<Rightarrow> error + datetime" where
  \<comment> \<open>\<open>dt + delta\<close> for a delta in microseconds\<close>
  "datetime_add dt delta =
     (if 0 \<le> dt + delta \<and> dt + delta < datetime_limit then Inr (dt + delta)
      else Inl OverflowError)"

text \<open>
  JSON objects that the code only stores and passes on (metadata, analysis payloads, task
  results) are association lists; the empty object is the falsy one.
\<close>

type_synonym json_obj = "(string \<times> string) list"

definition truthy_str :: "string option \<Rightarrow> bool" where
  \<comment> \<open>Python truthiness of an \<open>Optional[str]\<close>: \<open>None\<close> and the empty string are falsy\<close>
  "truthy_str s = (case s of None \<Rightarrow> False | Some t \<Rightarrow> t \<noteq> [])"

section \<open>Storage models (storage/models.py)\<close>

datatype VideoStatus =
    VideoStatus_PENDING | VideoStatus_ANALYZING | VideoStatus_ANALYZED
  | VideoStatus_GENERATING | VideoStatus_GENERATED | VideoStatus_PROCESSING
  | VideoStatus_PROCESSED | VideoStatus_READY | VideoStatus_PUBLISHED
  | VideoStatus_FAILED | VideoStatus_SKIPPED

datatype TaskStatus =
    TaskStatus_PENDING | TaskStatus_RUNNING | TaskStatus_COMPLETED
  | TaskStatus_FAILED | TaskStatus_CANCELLED

datatype Platform = YOUTUBE | TIKTOK | INSTAGRAM

text \<open>
  The three mapped classes share column names (\<open>id\<close>, \<open>status\<close>, \<open>error_message\<close>, ...), so
  the fields carry a prefix for their class: \<open>v_\<close> for \<open>VideoURL\<close>, \<open>t_\<close> for \<open>Task\<close>,
  \<open>pr_\<close> for \<open>PublishRecord\<close>.
\<close>

record VideoURL =
  v_id :: int
  v_url :: string
  v_video_id :: string
  v_title :: "string option"
  v_channel :: "string option"
  v_views :: "int option"
  v_likes :: "int option"
  v_duration :: "int option"
  v_published_at :: "datetime option"
  v_status :: VideoStatus
  v_discovered_at :: datetime
  v_updated_at :: datetime
  v_analysis_data :: "json_obj option"
  v_error_message :: "string option"
  v_retry_count :: int

record Task =
  t_id :: int
  t_video_url_id :: "int option"
  t_task_type :: string
  t_status :: TaskStatus
  t_created_at :: datetime
  t_started_at :: "datetime option"
  t_completed_at :: "datetime option"
  t_progress :: real
  t_result :: "json_obj option"
  t_error_message :: "string option"
  t_retry_count :: int

record PublishRecord =
  pr_id :: int
  pr_generated_video_id :: int
  pr_platform :: Platform
  pr_title :: string
  pr_is_published :: bool
  pr_scheduled_at :: "datetime option"
  pr_published_at :: "datetime option"

text \<open>
  The database session: one table per class, keyed by primary key.  \<open>session.get(C, k)\<close> is
  the lookup; assigning to the attributes of a loaded object and flushing writes the row back.
\<close>

record session =
  video_urls :: "int \<rightharpoonup> VideoURL"
  tasks :: "int \<rightharpoonup> Task"
  publish_records :: "PublishRecord list"

section \<open>VideoRepository (storage/repositories/video\_repo.py)\<close>

definition update_status ::
  "session \<Rightarrow> int \<Rightarrow> VideoStatus \<Rightarrow> string option \<Rightarrow> datetime \<Rightarrow> VideoURL option \<times> session" where
  \<comment> \<open>the last argument is the reading of \<open>datetime.utcnow()\<close>\<close>
  "update_status s video_url_id status error_message now =
     (case video_urls s video_url_id of
        None \<Rightarrow> (None, s)
      | Some video_url \<Rightarrow>
          let v1 = video_url\<lparr>v_status := status, v_updated_at := now\<rparr>;
              v2 = (if truthy_str error_message then v1\<lparr>v_error_message := error_message\<rparr> else v1)
          in (Some v2, s\<lparr>video_urls := (video_urls s)(video_url_id \<mapsto> v2)\<rparr>))"

definition increment_retry_count :: "session \<Rightarrow> int \<Rightarrow> datetime \<Rightarrow> VideoURL option \<times> session" where
  "increment_retry_count s video_url_id now =
     (case video_urls s video_url_id of
        None \<Rightarrow> (None, s)
      | Some video_url \<Rightarrow>
          let v1 = video_url\<lparr>v_retry_count := v_retry_count video_url + 1, v_updated_at := now\<rparr>
          in (Some v1, s\<lparr>video_urls := (video_urls s)(video_url_id \<mapsto> v1)\<rparr>))"

section \<open>TaskRepository (storage/repositories/task\_repo.py)\<close>

definition truthy_obj :: "json_obj option \<Rightarrow> bool" where
  "truthy_obj r = (case r of None \<Rightarrow> False | Some kv \<Rightarrow> kv \<noteq> [])"

definition update_task_status ::
  "session \<Rightarrow> int \<Rightarrow> TaskStatus \<Rightarrow> string option \<Rightarrow> json_obj option \<Rightarrow> datetime
     \<Rightarrow> Task option \<times> session" where
  "update_task_status s task_id status error_message result now =
     (case tasks s task_id of
        None \<Rightarrow> (None, s)
      | Some task \<Rightarrow>
          let k1 = task\<lparr>t_status := status\<rparr>;
              k2 = (if status = TaskStatus_RUNNING \<and> t_started_at k1 = None
                    then k1\<lparr>t_started_at := Some now\<rparr> else k1);
              k3 = (if status \<in> set [TaskStatus_COMPLETED, TaskStatus_FAILED, TaskStatus_CANCELLED]
                    then k2\<lparr>t_completed_at := Some now\<rparr> else k2);
              k4 = (if truthy_str error_message then k3\<lparr>t_error_message := error_message\<rparr> else k3);
              k5 = (if truthy_obj result then k4\<lparr>t_result := result\<rparr> else k4)
          in (Some k5, s\<lparr>tasks := (tasks s)(task_id \<mapsto> k5)\<rparr>))"

definition task_increment_retry_count :: "session \<Rightarrow> int \<Rightarrow> Task option \<times> session" where
  \<comment> \<open>\<open>TaskRepository.increment_retry_count\<close>\<close>
  "task_increment_retry_count s task_id =
     (case tasks s task_id of
        None \<Rightarrow> (None, s)
      | Some task \<Rightarrow>
          let k1 = task\<lparr>t_retry_count := t_retry_count task + 1\<rparr>
          in (Some k1, s\<lparr>tasks := (tasks s)(task_id \<mapsto> k1)\<rparr>))"

section \<open>Upload queue (publishing/scheduler.py)\<close>

text \<open>
  The queue file holds a JSON array of objects.  A key that the code reads with \<open>dict.get\<close>
  can be missing, hold \<open>null\<close>, or hold a string; \<open>add_to_queue\<close> always writes the key
  \<open>scheduled_time\<close> (\<open>null\<close> when no time was given) and never writes \<open>completed_at\<close>.
\<close>

datatype jstr = Absent | Null | Str string

record entry =
  e_id :: string
  e_video_file_path :: string
  e_metadata :: json_obj
  e_platform :: string
  e_scheduled_time :: jstr
  e_priority :: int
  e_status :: string
  e_added_at :: string
  e_attempts :: int
  e_last_error :: "string option"
  e_completed_at :: jstr

definition dict_get :: "jstr \<Rightarrow> string option" where
  \<comment> \<open>\<open>d.get(k)\<close>: \<open>None\<close> for a missing key and for a stored \<open>null\<close>\<close>
  "dict_get j = (case j of Absent \<Rightarrow> None | Null \<Rightarrow> None | Str s \<Rightarrow> Some s)"

definition dict_get_default :: "jstr \<Rightarrow> string \<Rightarrow> string option" where
  \<comment> \<open>\<open>d.get(k, dflt)\<close>: the default replaces a missing key only, a stored \<open>null\<close> stays \<open>None\<close>\<close>
  "dict_get_default j dflt = (case j of Absent \<Rightarrow> Some dflt | Null \<Rightarrow> None | Str s \<Rightarrow> Some s)"

subsection \<open>add\_to\_queue\<close>

text \<open>
  \<open>strftime_sec\<close> stands for \<open>strftime('%Y%m%d%H%M%S')\<close>: the format has no field finer than
  the second, so it is a function of the whole seconds of the datetime.  \<open>isoformat\<close> is
  \<open>datetime.isoformat\<close>.  \<open>now1\<close> and \<open>now2\<close> are the two readings of \<open>datetime.utcnow()\<close>.
  The function returns the new id and the queue as saved.
\<close>

definition add_to_queue ::
  "(int \<Rightarrow> string) \<Rightarrow> (datetime \<Rightarrow> string) \<Rightarrow> datetime \<Rightarrow> datetime \<Rightarrow> entry list
     \<Rightarrow> string \<Rightarrow> json_obj \<Rightarrow> string \<Rightarrow> datetime option \<Rightarrow> int \<Rightarrow> string \<times> entry list" where
  "add_to_queue strftime_sec isoformat now1 now2 queue video_file_path metadata platform
       scheduled_time priority =
     (let entry_id = platform @ ''_'' @ strftime_sec (now1 div 1000000);
          entry = \<lparr> e_id = entry_id,
                    e_video_file_path = video_file_path,
                    e_metadata = metadata,
                    e_platform = platform,
                    e_scheduled_time =
                      (case scheduled_time of None \<Rightarrow> Null | Some t \<Rightarrow> Str (isoformat t)),
                    e_priority = priority,
                    e_status = ''queued'',
                    e_added_at = isoformat now2,
                    e_attempts = 0,
                    e_last_error = None,
                    e_completed_at = Absent \<rparr>
      in (entry_id, queue @ [entry]))"

subsection \<open>get\_ready\_uploads\<close>

text \<open>
  The filtering loop.  \<open>fromisoformat\<close> is \<open>datetime.fromisoformat\<close> followed by the
  comparison with the naive \<open>now\<close>: it yields the position of a naive datetime, or the
  exception raised for a malformed string or for an offset-aware value.  An exception leaves
  the loop at the entry that raised it.
\<close>

fun ready_loop ::
  "(string \<Rightarrow> error + datetime) \<Rightarrow> datetime \<Rightarrow> string option \<Rightarrow> entry list \<Rightarrow> error + entry list" where
  "ready_loop fromisoformat now platform [] = Inr []"
| "ready_loop fromisoformat now platform (e # queue) =
     (if e_status e \<noteq> ''queued'' then ready_loop fromisoformat now platform queue
      else if truthy_str platform \<and> Some (e_platform e) \<noteq> platform
        then ready_loop fromisoformat now platform queue
      else if truthy_str (dict_get (e_scheduled_time e)) then
        (case fromisoformat (the (dict_get (e_scheduled_time e))) of
           Inl x \<Rightarrow> Inl x
         | Inr scheduled_dt \<Rightarrow>
             if scheduled_dt > now then ready_loop fromisoformat now platform queue
             else (case ready_loop fromisoformat now platform queue of
                     Inl x \<Rightarrow> Inl x | Inr ready \<Rightarrow> Inr (e # ready)))
      else (case ready_loop fromisoformat now platform queue of
              Inl x \<Rightarrow> Inl x | Inr ready \<Rightarrow> Inr (e # ready)))"

text \<open>
  The sort key \<open>(-x['priority'], x.get('scheduled_time', ''))\<close> and Python's \<open><\<close> on such
  tuples: the first components decide when they differ; otherwise equal second components
  make the tuples equal, two different strings compare by code points, and any other pair
  (\<open>None\<close> against a string) raises \<open>TypeError\<close>.
\<close>

type_synonym sort_key = "int \<times> string option"

definition ready_key :: "entry \<Rightarrow> sort_key" where
  "ready_key x = (- e_priority x, dict_get_default (e_scheduled_time x) [])"

definition tuple_lt :: "sort_key \<Rightarrow> sort_key \<Rightarrow> error + bool" where
  "tuple_lt a b =
     (if fst a \<noteq> fst b then Inr (fst a < fst b)
      else if snd a = snd b then Inr False
      else (case (snd a, snd b) of
              (Some s, Some t) \<Rightarrow> Inr (s < t)
            | _ \<Rightarrow> Inl TypeError))"

text \<open>
  \<open>list.sort(key=...)\<close> is a stable comparison sort that uses only \<open><\<close> on the keys and
  lets an exception of \<open><\<close> escape.  It is modelled by the stable insertion sort that takes
  the elements from left to right and puts each one in front of the first element of the
  sorted prefix that is greater.  On two elements this makes the one comparison
  \<open>key(x1) < key(x0)\<close>, as CPython does.
\<close>

fun sort_insert :: "('a \<Rightarrow> sort_key) \<Rightarrow> 'a \<Rightarrow> 'a list \<Rightarrow> error + 'a list" where
  "sort_insert key x [] = Inr [x]"
| "sort_insert key x (y # ys) =
     (case tuple_lt (key x) (key y) of
        Inl err \<Rightarrow> Inl err
      | Inr lt \<Rightarrow>
          if lt then Inr (x # y # ys)
          else (case sort_insert key x ys of Inl err \<Rightarrow> Inl err | Inr r \<Rightarrow> Inr (y # r)))"

fun sort_from :: "('a \<Rightarrow> sort_key) \<Rightarrow> 'a list \<Rightarrow> 'a list \<Rightarrow> error + 'a list" where
  "sort_from key sorted_part [] = Inr sorted_part"
| "sort_from key sorted_part (x # xs) =
     (case sort_insert key x sorted_part of Inl err \<Rightarrow> Inl err | Inr d \<Rightarrow> sort_from key d xs)"

definition list_sort :: "('a \<Rightarrow> sort_key) \<Rightarrow> 'a list \<Rightarrow> error + 'a list" where
  "list_sort key xs = sort_from key [] xs"

definition slice_to :: "'a list \<Rightarrow> int \<Rightarrow> 'a list" where
  \<comment> \<open>\<open>xs[:n]\<close>; a negative \<open>n\<close> counts from the end\<close>
  "slice_to xs n = (if 0 \<le> n then take (nat n) xs else take (nat (int (length xs) + n)) xs)"

definition get_ready_uploads ::
  "(string \<Rightarrow> error + datetime) \<Rightarrow> datetime \<Rightarrow> entry list \<Rightarrow> int option \<Rightarrow> string option
     \<Rightarrow> error + entry list" where
  "get_ready_uploads fromisoformat now queue limit platform =
     (case ready_loop fromisoformat now platform queue of
        Inl x \<Rightarrow> Inl x
      | Inr ready \<Rightarrow>
          (case list_sort ready_key ready of
             Inl x \<Rightarrow> Inl x
           | Inr sorted_ready \<Rightarrow>
               Inr (case limit of
                      None \<Rightarrow> sorted_ready
                    | Some n \<Rightarrow> if n \<noteq> 0 then slice_to sorted_ready n else sorted_ready)))"

subsection \<open>remove\_from\_queue\<close>

definition remove_from_queue :: "entry list \<Rightarrow> string \<Rightarrow> entry list" where
  \<comment> \<open>the queue as saved\<close>
  "remove_from_queue queue entry_id = filter (\<lambda>e. e_id e \<noteq> entry_id) queue"

subsection \<open>cleanup\_completed\<close>

text \<open>
  \<open>clock 0\<close> is the reading of \<open>utcnow()\<close> for the cutoff.  The list comprehension reads the
  clock once more for every \<open>completed\<close> entry it examines (the default of \<open>get\<close> is evaluated
  before the lookup); \<open>clock k\<close> is the \<open>k\<close>-th of these readings.  \<open>fromisoformat(None)\<close>
  raises \<open>TypeError\<close>.  The result is the queue file's content afterwards: it is rewritten
  only when entries were removed.
\<close>

fun cleanup_loop ::
  "(string \<Rightarrow> error + datetime) \<Rightarrow> (datetime \<Rightarrow> string) \<Rightarrow> (nat \<Rightarrow> datetime) \<Rightarrow> datetime \<Rightarrow> nat
     \<Rightarrow> entry list \<Rightarrow> error + entry list" where
  "cleanup_loop fromisoformat isoformat clock cutoff k [] = Inr []"
| "cleanup_loop fromisoformat isoformat clock cutoff k (e # queue) =
     (if e_status e \<noteq> ''completed'' then
        (case cleanup_loop fromisoformat isoformat clock cutoff k queue of
           Inl x \<Rightarrow> Inl x | Inr kept \<Rightarrow> Inr (e # kept))
      else
        (case (case dict_get_default (e_completed_at e) (isoformat (clock k)) of
                 None \<Rightarrow> Inl TypeError
               | Some s \<Rightarrow> fromisoformat s) of
           Inl x \<Rightarrow> Inl x
         | Inr completed_dt \<Rightarrow>
             (case cleanup_loop fromisoformat isoformat clock cutoff (Suc k) queue of
                Inl x \<Rightarrow> Inl x
              | Inr kept \<Rightarrow> Inr (if completed_dt > cutoff then e # kept else kept))))"

definition cleanup_completed ::
  "(string \<Rightarrow> error + datetime) \<Rightarrow> (datetime \<Rightarrow> string) \<Rightarrow> (nat \<Rightarrow> datetime) \<Rightarrow> entry list \<Rightarrow> int
     \<Rightarrow> error + entry list" where
  "cleanup_completed fromisoformat isoformat clock queue days =
     (case timedelta_days days of
        Inl x \<Rightarrow> Inl x
      | Inr delta \<Rightarrow>
          (case datetime_add (clock 0) (- delta) of
             Inl x \<Rightarrow> Inl x
           | Inr cutoff \<Rightarrow>
               (case cleanup_loop fromisoformat isoformat clock cutoff 1 queue of
                  Inl x \<Rightarrow> Inl x
                | Inr kept \<Rightarrow>
                    Inr (if int (length queue) - int (length kept) > 0 then kept else queue))))"

subsection \<open>check\_daily\_limit\<close>

text \<open>
  The arguments handed to SQLAlchemy's \<open>and_\<close>.  The first one is the Python expression
  \<open>PublishRecord.platform == Platform.YOUTUBE if platform == "youtube" else Platform.TIKTOK\<close>,
  in which the conditional binds weaker than \<open>==\<close>: for \<open>"youtube"\<close> it is the column
  comparison, for every other platform it is the bare enum member \<open>Platform.TIKTOK\<close>.
  \<open>and_\<close> coerces each argument to a WHERE clause and raises \<open>ArgumentError\<close> for an object
  that is neither a SQL expression nor a Boolean constant.  A comparison with a \<open>NULL\<close>
  column is not true, so a record without \<open>published_at\<close> is not selected.
\<close>

datatype where_arg =
    Platform_eq Platform
  | Published_at_ge datetime
  | Published_at_lt datetime
  | Is_published_eq bool
  | Enum_member Platform

fun is_clause :: "where_arg \<Rightarrow> bool" where
  "is_clause (Enum_member p) = False"
| "is_clause c = True"

fun clause_true :: "where_arg \<Rightarrow> PublishRecord \<Rightarrow> bool" where
  "clause_true (Platform_eq p) r = (pr_platform r = p)"
| "clause_true (Published_at_ge t) r =
     (case pr_published_at r of None \<Rightarrow> False | Some u \<Rightarrow> u \<ge> t)"
| "clause_true (Published_at_lt t) r =
     (case pr_published_at r of None \<Rightarrow> False | Some u \<Rightarrow> u < t)"
| "clause_true (Is_published_eq b) r = (pr_is_published r = b)"
| "clause_true (Enum_member p) r = False"

text \<open>\<open>sql_and\<close> is SQLAlchemy's \<open>and_\<close>.\<close>

definition sql_and :: "where_arg list \<Rightarrow> error + (PublishRecord \<Rightarrow> bool)" where
  "sql_and clauses =
     (if list_all is_clause clauses then Inr (\<lambda>r. list_all (\<lambda>c. clause_true c r) clauses)
      else Inl ArgumentError)"

record limit_info =
  li_limit :: int
  li_used :: int
  li_remaining :: int
  li_limit_reached :: bool

text \<open>
  \<open>daily_limit_cfg\<close> is the value of \<open>publishing.schedule.daily_limit\<close> in the schedule
  configuration when it is there; \<open>date\<close> is the date argument, or the reading of
  \<open>utcnow()\<close> that replaces a missing one.
\<close>

definition check_daily_limit ::
  "session \<Rightarrow> int option \<Rightarrow> string \<Rightarrow> datetime \<Rightarrow> error + limit_info" where
  "check_daily_limit s daily_limit_cfg platform date =
     (let daily_limit = (case daily_limit_cfg of None \<Rightarrow> 3 | Some l \<Rightarrow> l);
          start_of_day = date - date mod us_per_day
      in case timedelta_days 1 of
           Inl x \<Rightarrow> Inl x
         | Inr one_day \<Rightarrow>
             (case datetime_add start_of_day one_day of
                Inl x \<Rightarrow> Inl x
              | Inr end_of_day \<Rightarrow>
                  (case sql_and [if platform = ''youtube'' then Platform_eq YOUTUBE
                              else Enum_member TIKTOK,
                              Published_at_ge start_of_day,
                              Published_at_lt end_of_day,
                              Is_published_eq True] of
                     Inl x \<Rightarrow> Inl x
                   | Inr stmt \<Rightarrow>
                       let today_uploads = int (length (filter stmt (publish_records s)));
                           remaining = max 0 (daily_limit - today_uploads)
                       in Inr \<lparr> li_limit = daily_limit,
                                li_used = today_uploads,
                                li_remaining = remaining,
                                li_limit_reached = (remaining = 0) \<rparr>)))"

section \<open>Viral-candidate filter (discovery/youtube\_monitor.py)\<close>

text \<open>
  A raw item of the video listing, with the keys the filter reads.  The API delivers the
  counters as strings and may leave them out; \<open>categoryId\<close> is read with \<open>get\<close>.
\<close>

record video =
  yt_id :: string
  snippet_categoryId :: "string option"
  snippet_publishedAt :: string
  snippet_title :: string
  snippet_channelTitle :: string
  contentDetails_duration :: string
  statistics_viewCount :: "string option"
  statistics_likeCount :: "string option"

record video_data =
  vd_video_id :: string
  vd_title :: string
  vd_channel :: string
  vd_views :: int
  vd_likes :: int
  vd_vph :: int
  vd_published_at :: datetime
  vd_duration :: int
  vd_url :: string

subsection \<open>Python floats\<close>

text \<open>
  A Python float is a binary64 number: a finite real or an infinity (a NaN cannot arise in
  the filter).  The rounding of a real to the nearest binary64 number is the parameter
  \<open>rnd\<close> of the arithmetic; a result of magnitude \<open>2^1024 - 2^970\<close> or more rounds to an
  infinity.  Converting an int of that magnitude to a float raises \<open>OverflowError\<close>, dividing
  floats yields the infinity, and \<open>int()\<close> of an infinity raises \<open>OverflowError\<close>.
\<close>

datatype pyfloat = Finite real | PosInf | NegInf

definition float_overflow :: real where
  "float_overflow = 2 ^ 1024 - 2 ^ 970"

definition int_to_float :: "(real \<Rightarrow> real) \<Rightarrow> int \<Rightarrow> error + real" where
  \<comment> \<open>the conversion of the int operand of \<open>int / float\<close>\<close>
  "int_to_float rnd n =
     (if float_overflow \<le> \<bar>real_of_int n\<bar> then Inl OverflowError
      else Inr (rnd (real_of_int n)))"

definition float_truediv :: "(real \<Rightarrow> real) \<Rightarrow> real \<Rightarrow> real \<Rightarrow> pyfloat" where
  \<comment> \<open>\<open>a / b\<close> for finite floats and \<open>b\<close> not zero\<close>
  "float_truediv rnd a b =
     (if float_overflow \<le> a / b then PosInf
      else if a / b \<le> - float_overflow then NegInf
      else Finite (rnd (a / b)))"

definition float_lt_int :: "pyfloat \<Rightarrow> int \<Rightarrow> bool" where
  \<comment> \<open>\<open>x < n\<close> for a float and an int, which Python compares exactly\<close>
  "float_lt_int x n =
     (case x of Finite r \<Rightarrow> r < real_of_int n | PosInf \<Rightarrow> False | NegInf \<Rightarrow> True)"

definition trunc :: "real \<Rightarrow> int" where
  \<comment> \<open>rounding towards zero\<close>
  "trunc x = (if 0 \<le> x then \<lfloor>x\<rfloor> else \<lceil>x\<rceil>)"

definition float_to_int :: "pyfloat \<Rightarrow> error + int" where
  \<comment> \<open>\<open>int(x)\<close>\<close>
  "float_to_int x =
     (case x of Finite r \<Rightarrow> Inr (trunc r) | PosInf \<Rightarrow> Inl OverflowError
      | NegInf \<Rightarrow> Inl OverflowError)"

subsection \<open>The filter\<close>

text \<open>
  Library functions are parameters: \<open>isodate_duration\<close> is \<open>isodate.parse_duration\<close>
  followed by \<open>total_seconds()\<close> (a finite float), \<open>isodate_datetime\<close> is
  \<open>isodate.parse_datetime\<close> (the position of the parsed instant, or the exception of the
  parse or of the subtraction from the offset-aware \<open>now\<close>), and \<open>py_int\<close> is \<open>int()\<close> on a
  string.
\<close>

definition parse_duration :: "(string \<Rightarrow> error + real) \<Rightarrow> string \<Rightarrow> real" where
  "parse_duration isodate_duration duration_iso =
     (case isodate_duration duration_iso of Inl x \<Rightarrow> 0 | Inr seconds \<Rightarrow> seconds)"

definition is_short :: "(string \<Rightarrow> error + real) \<Rightarrow> video \<Rightarrow> int \<Rightarrow> bool" where
  "is_short isodate_duration v max_duration =
     (let seconds = parse_duration isodate_duration (contentDetails_duration v)
      in 0 < seconds \<and> seconds \<le> real_of_int max_duration)"

definition int_or_zero :: "(string \<Rightarrow> error + int) \<Rightarrow> string option \<Rightarrow> error + int" where
  \<comment> \<open>\<open>int(d.get(k, 0))\<close>\<close>
  "int_or_zero py_int field = (case field of None \<Rightarrow> Inr 0 | Some s \<Rightarrow> py_int s)"

text \<open>
  \<open>(now - published_at).total_seconds() / 3600\<close>: \<open>total_seconds\<close> divides the microseconds
  of the difference by \<open>10^6\<close>, correctly rounded; the difference of two datetimes is far
  from the overflow of a float.
\<close>

definition hours_since_published :: "(real \<Rightarrow> real) \<Rightarrow> datetime \<Rightarrow> datetime \<Rightarrow> real" where
  "hours_since_published rnd now published_at =
     rnd (rnd (real_of_int (now - published_at) / 1000000) / 3600)"

definition views_per_hour :: "(real \<Rightarrow> real) \<Rightarrow> int \<Rightarrow> real \<Rightarrow> error + pyfloat" where
  \<comment> \<open>\<open>view_count / hours_since_published if hours_since_published > 0 else 0\<close>\<close>
  "views_per_hour rnd view_count hours =
     (if hours > 0 then
        (case int_to_float rnd view_count of
           Inl x \<Rightarrow> Inl x
         | Inr views \<Rightarrow> Inr (float_truediv rnd views hours))
      else Inr (Finite 0))"

text \<open>
  One round of the loop of \<open>filter_videos\<close>: \<open>Inr None\<close> is \<open>continue\<close>, \<open>Inr (Some d)\<close> appends
  \<open>d\<close>.  \<open>is_short\<close> is called with its default ceiling of 60 seconds.  The entries of
  \<open>video_data\<close> are evaluated in the order of the dictionary display, \<open>likes\<close> before \<open>vph\<close>.
\<close>

definition filter_step ::
  "(string \<Rightarrow> error + real) \<Rightarrow> (string \<Rightarrow> error + datetime) \<Rightarrow> (string \<Rightarrow> error + int)
     \<Rightarrow> (real \<Rightarrow> real) \<Rightarrow> datetime \<Rightarrow> int \<Rightarrow> int \<Rightarrow> video \<Rightarrow> error + video_data option" where
  "filter_step isodate_duration isodate_datetime py_int rnd now max_age_hours min_vph v =
     (if snippet_categoryId v = Some ''10'' then Inr None
      else if \<not> is_short isodate_duration v 60 then Inr None
      else
        (case isodate_datetime (snippet_publishedAt v) of
           Inl x \<Rightarrow> Inl x
         | Inr published_at \<Rightarrow>
             let hours = hours_since_published rnd now published_at
             in if hours \<ge> real_of_int max_age_hours \<or> hours \<le> 0 then Inr None
                else
                  (case int_or_zero py_int (statistics_viewCount v) of
                     Inl x \<Rightarrow> Inl x
                   | Inr view_count \<Rightarrow>
                       (case views_per_hour rnd view_count hours of
                          Inl x \<Rightarrow> Inl x
                        | Inr vph \<Rightarrow>
                            if float_lt_int vph min_vph then Inr None
                            else
                              (case int_or_zero py_int (statistics_likeCount v) of
                                 Inl x \<Rightarrow> Inl x
                               | Inr likes \<Rightarrow>
                                   (case float_to_int vph of
                                      Inl x \<Rightarrow> Inl x
                                    | Inr vph_int \<Rightarrow>
                                        Inr (Some \<lparr> vd_video_id = yt_id v,
                                                    vd_title = snippet_title v,
                                                    vd_channel = snippet_channelTitle v,
                                                    vd_views = view_count,
                                                    vd_likes = likes,
                                                    vd_vph = vph_int,
                                                    vd_published_at = published_at,
                                                    vd_duration = trunc
                                                      (parse_duration isodate_duration
                                                         (contentDetails_duration v)),
                                                    vd_url =
                                                      ''https://www.youtube.com/shorts/''
                                                        @ yt_id v \<rparr>)))))))"

fun filter_videos ::
  "(string \<Rightarrow> error + real) \<Rightarrow> (string \<Rightarrow> error + datetime) \<Rightarrow> (string \<Rightarrow> error + int)
     \<Rightarrow> (real \<Rightarrow> real) \<Rightarrow> datetime \<Rightarrow> video list \<Rightarrow> int \<Rightarrow> int \<Rightarrow> error + video_data list" where
  "filter_videos isodate_duration isodate_datetime py_int rnd now [] max_age_hours min_vph =
     Inr []"
| "filter_videos isodate_duration isodate_datetime py_int rnd now (v # videos) max_age_hours
       min_vph =
     (case filter_step isodate_duration isodate_datetime py_int rnd now max_age_hours
             min_vph v of
        Inl x \<Rightarrow> Inl x
      | Inr r \<Rightarrow>
          (case filter_videos isodate_duration isodate_datetime py_int rnd now videos
                  max_age_hours min_vph of
             Inl x \<Rightarrow> Inl x
           | Inr filtered \<Rightarrow> Inr (case r of None \<Rightarrow> filtered | Some d \<Rightarrow> d # filtered)))"

section \<open>Properties in the words of the specification\<close>

text \<open>
  A ready job: its status is \<open>queued\<close>, it passes the platform filter, and it has no
  scheduled time or one that is not after \<open>now\<close>.  The order of the ready jobs: descending
  priority, then ascending scheduled-time string, with the empty string for a job without
  one.  Two jobs are comparable in Python when they differ in priority or are both with, or
  both without, a \<open>null\<close> scheduled time.
\<close>

definition ready_key_total :: "entry \<Rightarrow> int \<times> string" where
  "ready_key_total x =
     (- e_priority x, case dict_get_default (e_scheduled_time x) [] of None \<Rightarrow> [] | Some s \<Rightarrow> s)"

definition comparable_keys :: "entry list \<Rightarrow> bool" where
  "comparable_keys xs =
     (\<forall>x \<in> set xs. \<forall>y \<in> set xs.
        e_priority x = e_priority y \<longrightarrow> (e_scheduled_time x = Null) = (e_scheduled_time y = Null))"

definition is_ready :: "(string \<Rightarrow> error + datetime) \<Rightarrow> datetime \<Rightarrow> string option \<Rightarrow> entry \<Rightarrow> bool" where
  "is_ready fromisoformat now platform e =
     (e_status e = ''queued'' \<and>
      (\<not> truthy_str platform \<or> platform = Some (e_platform e)) \<and>
      (case dict_get (e_scheduled_time e) of
         None \<Rightarrow> True
       | Some s \<Rightarrow> s = [] \<or> (case fromisoformat s of Inl x \<Rightarrow> False | Inr t \<Rightarrow> t \<le> now)))"

text \<open>
  The completion time of a job can be read when the key \<open>completed_at\<close> is missing or holds
  a string that \<open>fromisoformat\<close> accepts, as \<open>update_entry_status\<close> writes it; it cannot be
  read when the key holds \<open>null\<close> or another string.  \<open>swept\<close> is the queue without the
  \<open>completed\<close> jobs whose completion time is read from the job and is not after the cutoff.
\<close>

definition readable_completed_at :: "(string \<Rightarrow> error + datetime) \<Rightarrow> entry \<Rightarrow> bool" where
  "readable_completed_at fromisoformat e =
     (case e_completed_at e of
        Absent \<Rightarrow> True
      | Null \<Rightarrow> False
      | Str s \<Rightarrow> (case fromisoformat s of Inl x \<Rightarrow> False | Inr t \<Rightarrow> True))"

definition readable_queue :: "(string \<Rightarrow> error + datetime) \<Rightarrow> entry list \<Rightarrow> bool" where
  "readable_queue fromisoformat queue =
     list_all (\<lambda>e. e_status e = ''completed'' \<longrightarrow> readable_completed_at fromisoformat e) queue"

definition swept :: "(string \<Rightarrow> error + datetime) \<Rightarrow> datetime \<Rightarrow> entry list \<Rightarrow> entry list" where
  "swept fromisoformat cutoff queue =
     [e \<leftarrow> queue.
        \<not> (e_status e = ''completed'' \<and>
           (case e_completed_at e of
              Str s \<Rightarrow> (case fromisoformat s of
                          Inl x \<Rightarrow> False
                        | Inr completed_dt \<Rightarrow> completed_dt \<le> cutoff)
            | _ \<Rightarrow> False))]"

text \<open>
  A publish record that counts towards the daily limit of a platform: it is for that
  platform, it is flagged as published, and its publication time lies in the 24 hours that
  begin with the start of the day.
\<close>

definition published_on :: "Platform \<Rightarrow> datetime \<Rightarrow> PublishRecord \<Rightarrow> bool" where
  "published_on p start_of_day r =
     (pr_platform r = p \<and> pr_is_published r \<and>
      (case pr_published_at r of
         None \<Rightarrow> False
       | Some t \<Rightarrow> start_of_day \<le> t \<and> t < start_of_day + us_per_day))"

text \<open>
  What the filter asks of the rounding \<open>rnd\<close>, and what rounding to the nearest binary64
  number provides: it is monotone, it leaves the integers up to \<open>2^53\<close> as they are, and in
  the range from \<open>10^-12\<close> to \<open>10^300\<close> its relative error is at most \<open>2^-53\<close>.
\<close>

definition round_to_nearest :: "(real \<Rightarrow> real) \<Rightarrow> bool" where
  "round_to_nearest rnd =
     ((\<forall>x y. x \<le> y \<longrightarrow> rnd x \<le> rnd y) \<and>
      (\<forall>n::int. \<bar>n\<bar> \<le> 2 ^ 53 \<longrightarrow> rnd (real_of_int n) = real_of_int n) \<and>
      (\<forall>x. 1 / 10 ^ 12 \<le> \<bar>x\<bar> \<and> \<bar>x\<bar> \<le> 10 ^ 300 \<longrightarrow> \<bar>rnd x - x\<bar> \<le> \<bar>x\<bar> / 2 ^ 53))"

text \<open>
  A viral candidate: not of the music category (\<open>10\<close>); with a duration above 0 and up to the
  60 seconds of a short; with an age, the time from publication to \<open>now\<close>, above 0 and below
  the maximal age in hours; and with views per hour, as the float quotient of the code, not
  below the floor.  The age is in microseconds, an hour has 3600000000 of them.
\<close>

definition viral_candidate ::
  "(string \<Rightarrow> error + real) \<Rightarrow> (string \<Rightarrow> error + datetime) \<Rightarrow> (string \<Rightarrow> error + int)
     \<Rightarrow> (real \<Rightarrow> real) \<Rightarrow> datetime \<Rightarrow> int \<Rightarrow> int \<Rightarrow> video \<Rightarrow> bool" where
  "viral_candidate isodate_duration isodate_datetime py_int rnd now max_age_hours min_vph v =
     (snippet_categoryId v \<noteq> Some ''10'' \<and>
      0 < parse_duration isodate_duration (contentDetails_duration v) \<and>
      parse_duration isodate_duration (contentDetails_duration v) \<le> 60 \<and>
      (case isodate_datetime (snippet_publishedAt v) of
         Inl x \<Rightarrow> False
       | Inr published_at \<Rightarrow>
           0 < now - published_at \<and>
           now - published_at < max_age_hours * 3600000000 \<and>
           (case int_or_zero py_int (statistics_viewCount v) of
              Inl x \<Rightarrow> False
            | Inr view_count \<Rightarrow>
                (case views_per_hour rnd view_count
                        (hours_since_published rnd now published_at) of
                   Inl x \<Rightarrow> False
                 | Inr vph \<Rightarrow> \<not> float_lt_int vph min_vph))))"

section \<open>Example data\<close>

text \<open>
  Concrete stores and queues on which the theorems below are instantiated.  The instants are
  those of 2024-01-01: 63839700000000000 is 10:00:00, 63839707200000000 is 12:00:00 and
  63839710800000000 is 13:00:00.
\<close>

definition video0 :: VideoURL where
  "video0 = \<lparr> v_id = 1, v_url = ''https://www.youtube.com/shorts/abc'', v_video_id = ''abc'',
               v_title = Some ''clip'', v_channel = None, v_views = Some 20000, v_likes = None,
               v_duration = Some 45, v_published_at = None, v_status = VideoStatus_ANALYZING,
               v_discovered_at = 63839700000000000, v_updated_at = 63839700000000000,
               v_analysis_data = None, v_error_message = None, v_retry_count = 0 \<rparr>"

definition task0 :: Task where
  "task0 = \<lparr> t_id = 1, t_video_url_id = Some 1, t_task_type = ''analysis'',
              t_status = TaskStatus_PENDING, t_created_at = 63839700000000000,
              t_started_at = None, t_completed_at = None, t_progress = 0, t_result = None,
              t_error_message = None, t_retry_count = 0 \<rparr>"

definition session0 :: session where
  "session0 = \<lparr> video_urls = [1 \<mapsto> video0], tasks = [1 \<mapsto> task0], publish_records = [] \<rparr>"

definition queued_entry :: "string \<Rightarrow> string \<Rightarrow> jstr \<Rightarrow> int \<Rightarrow> entry" where
  "queued_entry i platform scheduled_time priority =
     \<lparr> e_id = i, e_video_file_path = ''data/videos/clip.mp4'', e_metadata = [(''title'', ''clip'')],
       e_platform = platform, e_scheduled_time = scheduled_time, e_priority = priority,
       e_status = ''queued'', e_added_at = ''2024-01-01T09:00:00'', e_attempts = 0,
       e_last_error = None, e_completed_at = Absent \<rparr>"

text \<open>
  Stand-ins for the library functions on the instants used below: they agree with
  \<open>datetime.fromisoformat\<close>, \<open>datetime.isoformat\<close> and \<open>strftime('%Y%m%d%H%M%S')\<close> there;
  \<open>example_fromisoformat\<close> rejects every other string as malformed.
\<close>

definition example_instants :: "(string \<times> datetime) list" where
  "example_instants =
     [(''2023-12-24T12:00:00'', 63839016000000000),
      (''2023-12-25T12:00:00'', 63839102400000000),
      (''2023-12-26T12:00:00'', 63839188800000000),
      (''2024-01-01T09:00:00'', 63839696400000000),
      (''2024-01-01T09:00:00.000007'', 63839696400000007),
      (''2024-01-01T09:00:00.400000'', 63839696400400000),
      (''2024-01-01T09:00:00.400007'', 63839696400400007),
      (''2024-01-01T09:00:01'', 63839696401000000),
      (''2024-01-01T09:00:01.000007'', 63839696401000007),
      (''2024-01-01T10:00:00'', 63839700000000000),
      (''2024-01-01T12:00:00'', 63839707200000000),
      (''2024-01-01T12:00:00.000003'', 63839707200000003),
      (''2024-01-01T12:00:00.000005'', 63839707200000005),
      (''2024-01-01T13:00:00'', 63839710800000000),
      (''2024-01-02T12:00:00'', 63839793600000000)]"

definition example_fromisoformat :: "string \<Rightarrow> error + datetime" where
  "example_fromisoformat s =
     (case map_of example_instants s of None \<Rightarrow> Inl ValueError | Some t \<Rightarrow> Inr t)"

definition example_isoformat :: "datetime \<Rightarrow> string" where
  "example_isoformat t =
     (case map_of (map (\<lambda>(s, t). (t, s)) example_instants) t of None \<Rightarrow> [] | Some s \<Rightarrow> s)"

definition example_strftime_sec :: "int \<Rightarrow> string" where
  "example_strftime_sec sec =
     (case map_of [(63839696400, ''20240101090000''), (63839696401, ''20240101090001'')] sec of
        None \<Rightarrow> []
      | Some s \<Rightarrow> s)"

definition example_queue :: "entry list" where
  "example_queue =
     [queued_entry ''youtube_20240101090000'' ''youtube'' (Str ''2024-01-01T13:00:00'') 9,
      queued_entry ''tiktok_20240101090001'' ''tiktok'' (Str ''2024-01-01T10:00:00'') 5,
      (queued_entry ''youtube_20240101090002'' ''youtube'' Null 7)\<lparr>e_status := ''uploading''\<rparr>,
      queued_entry ''youtube_20240101090003'' ''youtube'' (Str ''2024-01-01T10:00:00'') 5,
      queued_entry ''youtube_20240101090004'' ''youtube'' Null 8]"

definition example_clock :: "nat \<Rightarrow> datetime" where
  "example_clock k =
     (if k = 0 then 63839707200000000 else if k = 1 then 63839707200000003
      else 63839707200000005)"

definition completed_entry :: "string \<Rightarrow> jstr \<Rightarrow> entry" where
  "completed_entry i completed_at =
     (queued_entry i ''youtube'' Null 5)\<lparr>e_status := ''completed'', e_completed_at := completed_at\<rparr>"

definition example_cleanup_queue :: "entry list" where
  "example_cleanup_queue =
     [completed_entry ''youtube_20231224110000'' (Str ''2023-12-24T12:00:00''),
      completed_entry ''youtube_20231226110000'' (Str ''2023-12-26T12:00:00''),
      completed_entry ''youtube_20231201110000'' Absent,
      queued_entry ''youtube_20230101090000'' ''youtube'' Null 5,
      (queued_entry ''youtube_20230101090001'' ''youtube'' Null 5)\<lparr>e_status := ''failed''\<rparr>,
      (queued_entry ''youtube_20230101090002'' ''youtube'' Null 5)\<lparr>e_status := ''uploading''\<rparr>]"

definition publish_record :: "int \<Rightarrow> Platform \<Rightarrow> bool \<Rightarrow> datetime option \<Rightarrow> PublishRecord" where
  "publish_record i platform is_published published_at =
     \<lparr> pr_id = i, pr_generated_video_id = i, pr_platform = platform, pr_title = ''clip'',
       pr_is_published = is_published, pr_scheduled_at = None, pr_published_at = published_at \<rparr>"

definition example_publish_session :: session where
  "example_publish_session =
     \<lparr> video_urls = Map.empty, tasks = Map.empty,
       publish_records =
         [publish_record 1 TIKTOK True (Some 63839696400000000),
          publish_record 2 TIKTOK True (Some 63839700000000000),
          publish_record 3 TIKTOK True (Some 63839707200000000),
          publish_record 4 YOUTUBE True (Some 63839696400000000),
          publish_record 5 YOUTUBE True (Some 63839700000000000),
          publish_record 6 YOUTUBE False None,
          publish_record 7 YOUTUBE True (Some 63839016000000000)] \<rparr>"

text \<open>
  Stand-ins for \<open>isodate\<close> and \<open>int()\<close> on the strings used below.  The identity stands in
  for the rounding: the numbers of the examples and their quotients are binary64 numbers.
\<close>

definition example_isodate_duration :: "string \<Rightarrow> error + real" where
  "example_isodate_duration s =
     (case map_of [(''PT45S'', 45), (''PT1M'', 60), (''PT1M1S'', 61), (''PT1M30S'', 90)] s of
        None \<Rightarrow> Inl ValueError
      | Some seconds \<Rightarrow> Inr seconds)"

definition example_isodate_datetime :: "string \<Rightarrow> error + datetime" where
  "example_isodate_datetime s =
     (case map_of [(''2024-01-01T10:00:00Z'', 63839700000000000),
                   (''2023-12-30T10:00:00Z'', 63839527200000000)] s of
        None \<Rightarrow> Inl ValueError
      | Some t \<Rightarrow> Inr t)"

definition example_py_int :: "string \<Rightarrow> error + int" where
  "example_py_int s =
     (case map_of [(''20000'', 20000), (''9000000'', 9000000), (''150'', 150)] s of
        None \<Rightarrow> Inl ValueError
      | Some n \<Rightarrow> Inr n)"

definition example_video :: "string \<Rightarrow> string \<Rightarrow> string \<Rightarrow> string \<Rightarrow> video" where
  "example_video i category duration published_at =
     \<lparr> yt_id = i, snippet_categoryId = Some category, snippet_publishedAt = published_at,
       snippet_title = ''clip'', snippet_channelTitle = ''channel'',
       contentDetails_duration = duration, statistics_viewCount = Some ''20000'',
       statistics_likeCount = Some ''150'' \<rparr>"

section \<open>Status transitions of items and tasks\<close>

lemma update_task_status_found:
  assumes "tasks s task_id = Some task"
  shows "\<exists>task'. update_task_status s task_id status msg res now
                 = (Some task', s\<lparr>tasks := (tasks s)(task_id \<mapsto> task')\<rparr>)
        \<and> t_started_at task' =
            (if status = TaskStatus_RUNNING \<and> t_started_at task = None then Some now
             else t_started_at task)
        \<and> t_completed_at task' =
            (if status \<in> {TaskStatus_COMPLETED, TaskStatus_FAILED, TaskStatus_CANCELLED}
             then Some now else t_completed_at task)"
  using assms by (simp add: update_task_status_def Let_def)

text \<open>
  Claim C2, as the code has it: a status update with a non-empty error message on a stored
  item or task stores the message and leaves the retry counter at its old value.
\<close>

theorem update_status_keeps_retry_count:
  "(msg \<noteq> [] \<and> video_urls s i = Some v \<longrightarrow>
      (\<exists>v'. update_status s i st (Some msg) now = (Some v', s\<lparr>video_urls := (video_urls s)(i \<mapsto> v')\<rparr>)
            \<and> v_error_message v' = Some msg \<and> v_retry_count v' = v_retry_count v)) \<and>
   (msg \<noteq> [] \<and> tasks s j = Some k \<longrightarrow>
      (\<exists>k'. update_task_status s j ts (Some msg) res now = (Some k', s\<lparr>tasks := (tasks s)(j \<mapsto> k')\<rparr>)
            \<and> t_error_message k' = Some msg \<and> t_retry_count k' = t_retry_count k))"
  by (simp add: update_status_def update_task_status_def truthy_str_def Let_def)

theorem update_status_keeps_retry_count_witness:
  "(\<exists>v'. update_status session0 1 VideoStatus_FAILED (Some ''quota exceeded'') 63839707200000000
           = (Some v', session0\<lparr>video_urls := (video_urls session0)(1 \<mapsto> v')\<rparr>)
         \<and> v_error_message v' = Some ''quota exceeded'' \<and> v_retry_count v' = 0) \<and>
   (\<exists>k'. update_task_status session0 1 TaskStatus_FAILED (Some ''quota exceeded'') None 63839707200000000
           = (Some k', session0\<lparr>tasks := (tasks session0)(1 \<mapsto> k')\<rparr>)
         \<and> t_error_message k' = Some ''quota exceeded'' \<and> t_retry_count k' = 0)"
  using update_status_keeps_retry_count [of "''quota exceeded''" session0 1 video0
      VideoStatus_FAILED 63839707200000000 1 task0 TaskStatus_FAILED None]
  by (simp add: session0_def video0_def task0_def)

lemma increment_retry_count_by_one:
  "(video_urls s i = Some v \<longrightarrow>
      map_option v_retry_count (fst (increment_retry_count s i now)) = Some (v_retry_count v + 1)) \<and>
   (tasks s j = Some k \<longrightarrow>
      map_option t_retry_count (fst (task_increment_retry_count s j)) = Some (t_retry_count k + 1))"
  by (simp add: increment_retry_count_def task_increment_retry_count_def Let_def)

text \<open>
  Claim C2 as stated fails: after a failed update with an error message, the retry counter of
  the stored item, and of the stored task, is not its former value plus one.
\<close>

theorem update_status_retry_counterexample:
  "map_option v_retry_count
      (video_urls (snd (update_status session0 1 VideoStatus_FAILED (Some ''quota exceeded'')
                          63839707200000000)) 1)
     \<noteq> map_option (\<lambda>v. v_retry_count v + 1) (video_urls session0 1) \<and>
   map_option t_retry_count
      (tasks (snd (update_task_status session0 1 TaskStatus_FAILED (Some ''quota exceeded'') None
                     63839707200000000)) 1)
     \<noteq> map_option (\<lambda>k. t_retry_count k + 1) (tasks session0 1)"
  by (simp add: update_status_def update_task_status_def truthy_str_def truthy_obj_def Let_def
      session0_def video0_def task0_def)

text \<open>
  Claim C3, as the code has it: a status update on an id that is not in the store returns
  \<open>None\<close> and leaves the store as it was; nothing is raised.
\<close>

theorem update_status_absent_id:
  "(video_urls s i = None \<longrightarrow> update_status s i st msg now = (None, s)) \<and>
   (tasks s j = None \<longrightarrow> update_task_status s j ts msg2 res now2 = (None, s))"
  by (simp add: update_status_def update_task_status_def)

theorem update_status_absent_id_witness:
  "update_status session0 7 VideoStatus_FAILED (Some ''quota exceeded'') 63839707200000000
     = (None, session0) \<and>
   update_task_status session0 7 TaskStatus_RUNNING None None 63839707200000000 = (None, session0)"
  using update_status_absent_id [of session0 7 VideoStatus_FAILED "Some ''quota exceeded''"
      63839707200000000 7 TaskStatus_RUNNING None None 63839707200000000]
  by (simp add: session0_def)

text \<open>
  Claim C3 as stated fails: on the absent id 7 both updates return normally, with \<open>None\<close> as
  their value and the store untouched, instead of failing with a not-found error.
\<close>

theorem update_status_not_found_counterexample:
  "fst (update_status session0 7 VideoStatus_FAILED (Some ''quota exceeded'') 63839707200000000)
     = None \<and>
   snd (update_status session0 7 VideoStatus_FAILED (Some ''quota exceeded'') 63839707200000000)
     = session0 \<and>
   fst (update_task_status session0 7 TaskStatus_RUNNING None None 63839707200000000) = None \<and>
   snd (update_task_status session0 7 TaskStatus_RUNNING None None 63839707200000000) = session0"
  by (simp add: update_status_def update_task_status_def session0_def)

text \<open>
  Claim C9: for a stored task, a transition into \<open>RUNNING\<close> sets the start time only when
  none is set, so that a further transition into \<open>RUNNING\<close> keeps it; a transition into
  \<open>COMPLETED\<close>, \<open>FAILED\<close> or \<open>CANCELLED\<close> sets the completion time.
\<close>

theorem update_task_status_timestamps:
  assumes "tasks s task_id = Some task"
  shows "\<exists>task' s'. update_task_status s task_id status msg res now = (Some task', s')
        \<and> tasks s' task_id = Some task'
        \<and> (status = TaskStatus_RUNNING \<longrightarrow>
             t_started_at task' = (case t_started_at task of None \<Rightarrow> Some now | Some t0 \<Rightarrow> Some t0)
             \<and> (\<exists>task''. fst (update_task_status s' task_id TaskStatus_RUNNING msg2 res2 later)
                            = Some task''
                  \<and> t_started_at task'' = t_started_at task'))
        \<and> (status \<in> {TaskStatus_COMPLETED, TaskStatus_FAILED, TaskStatus_CANCELLED} \<longrightarrow>
             t_completed_at task' = Some now)"
proof -
  from update_task_status_found [OF assms, of status msg res now]
  obtain task' where
    upd: "update_task_status s task_id status msg res now
            = (Some task', s\<lparr>tasks := (tasks s)(task_id \<mapsto> task')\<rparr>)"
    and started: "t_started_at task' =
            (if status = TaskStatus_RUNNING \<and> t_started_at task = None then Some now
             else t_started_at task)"
    and completed: "t_completed_at task' =
            (if status \<in> {TaskStatus_COMPLETED, TaskStatus_FAILED, TaskStatus_CANCELLED}
             then Some now else t_completed_at task)"
    by blast
  let ?s' = "s\<lparr>tasks := (tasks s)(task_id \<mapsto> task')\<rparr>"
  have stored: "tasks ?s' task_id = Some task'" by simp
  from update_task_status_found [OF stored, of TaskStatus_RUNNING msg2 res2 later]
  obtain task'' where
    upd2: "fst (update_task_status ?s' task_id TaskStatus_RUNNING msg2 res2 later) = Some task''"
    and started2: "t_started_at task'' =
            (if t_started_at task' = None then Some later else t_started_at task')"
    by auto
  have again: "status = TaskStatus_RUNNING \<Longrightarrow> t_started_at task'' = t_started_at task'"
    using started started2 by (cases "t_started_at task") auto
  have first: "status = TaskStatus_RUNNING \<Longrightarrow>
      t_started_at task' = (case t_started_at task of None \<Rightarrow> Some now | Some t0 \<Rightarrow> Some t0)"
    using started by (cases "t_started_at task") auto
  have last: "status \<in> {TaskStatus_COMPLETED, TaskStatus_FAILED, TaskStatus_CANCELLED} \<Longrightarrow>
      t_completed_at task' = Some now"
    using completed by simp
  show ?thesis
    using upd stored upd2 again first last by blast
qed

theorem update_task_status_timestamps_witness:
  "\<exists>task' s'. update_task_status session0 1 TaskStatus_RUNNING None None 63839707200000000
                 = (Some task', s')
        \<and> tasks s' 1 = Some task'
        \<and> t_started_at task' = Some 63839707200000000
        \<and> (\<exists>task''. fst (update_task_status s' 1 TaskStatus_RUNNING None None 63839710800000000)
                            = Some task''
                  \<and> t_started_at task'' = Some 63839707200000000)"
proof -
  have stored: "tasks session0 1 = Some task0" by (simp add: session0_def)
  have unset: "t_started_at task0 = None" by (simp add: task0_def)
  show ?thesis
    using update_task_status_timestamps [OF stored, of TaskStatus_RUNNING None None
        63839707200000000 None None 63839710800000000] unset
    by auto
qed

section \<open>The upload queue\<close>

text \<open>
  Claim C10: \<open>remove_from_queue\<close> keeps exactly the entries with another id: none with the
  given id remains, however many there were; every other entry stays, as often as before and
  in the same order; and a queue without the id is left as it is.
\<close>

theorem remove_from_queue_exact:
  "remove_from_queue queue entry_id = [e \<leftarrow> queue. e_id e \<noteq> entry_id] \<and>
   (\<forall>e \<in> set (remove_from_queue queue entry_id). e_id e \<noteq> entry_id) \<and>
   (\<forall>e. e_id e \<noteq> entry_id \<longrightarrow>
        count_list (remove_from_queue queue entry_id) e = count_list queue e) \<and>
   subseq (remove_from_queue queue entry_id) queue \<and>
   ((\<forall>e \<in> set queue. e_id e \<noteq> entry_id) \<longrightarrow> remove_from_queue queue entry_id = queue)"
proof -
  have gone: "\<forall>e \<in> set (remove_from_queue queue entry_id). e_id e \<noteq> entry_id"
    by (simp add: remove_from_queue_def)
  have others: "\<forall>e. e_id e \<noteq> entry_id \<longrightarrow>
        count_list (remove_from_queue queue entry_id) e = count_list queue e"
    unfolding remove_from_queue_def by (induction queue) auto
  have order: "subseq (remove_from_queue queue entry_id) queue"
    by (simp add: remove_from_queue_def)
  have noop: "(\<forall>e \<in> set queue. e_id e \<noteq> entry_id) \<longrightarrow> remove_from_queue queue entry_id = queue"
    by (simp add: remove_from_queue_def)
  show ?thesis
    using gone others order noop by (simp add: remove_from_queue_def)
qed

theorem remove_from_queue_exact_witness:
  "remove_from_queue
     [queued_entry ''youtube_20240101090000'' ''youtube'' Null 5,
      queued_entry ''tiktok_20240101090000'' ''tiktok'' Null 5,
      queued_entry ''youtube_20240101090000'' ''youtube'' Null 7] ''youtube_20240101090000''
     = [queued_entry ''tiktok_20240101090000'' ''tiktok'' Null 5] \<and>
   remove_from_queue [queued_entry ''tiktok_20240101090000'' ''tiktok'' Null 5]
     ''youtube_20240101090000'' = [queued_entry ''tiktok_20240101090000'' ''tiktok'' Null 5]"
  using remove_from_queue_exact [of "[queued_entry ''youtube_20240101090000'' ''youtube'' Null 5,
      queued_entry ''tiktok_20240101090000'' ''tiktok'' Null 5,
      queued_entry ''youtube_20240101090000'' ''youtube'' Null 7]" "''youtube_20240101090000''"]
    remove_from_queue_exact [of "[queued_entry ''tiktok_20240101090000'' ''tiktok'' Null 5]"
      "''youtube_20240101090000''"]
  by (simp add: queued_entry_def)

subsection \<open>Ready jobs\<close>

lemma ready_loop_sound:
  "ready_loop fromisoformat now platform queue = Inr ready \<Longrightarrow> e \<in> set ready \<Longrightarrow>
     e \<in> set queue \<and> e_status e = ''queued'' \<and>
     (case dict_get (e_scheduled_time e) of
        None \<Rightarrow> True
      | Some s \<Rightarrow> s = [] \<or> (\<exists>t. fromisoformat s = Inr t \<and> t \<le> now)) \<and>
     (\<forall>p. platform = Some p \<and> p \<noteq> [] \<longrightarrow> e_platform e = p)"
proof (induction queue arbitrary: ready)
  case Nil
  then show ?case by simp
next
  case (Cons a queue)
  then show ?case
    by (auto simp add: truthy_str_def split: if_splits sum.splits option.splits)
qed

lemma sort_insert_mset:
  "sort_insert key x ys = Inr r \<Longrightarrow> mset r = add_mset x (mset ys)"
  by (induction ys arbitrary: r) (auto split: sum.splits if_splits)

lemma sort_from_mset:
  "sort_from key acc xs = Inr r \<Longrightarrow> mset r = mset acc + mset xs"
proof (induction xs arbitrary: acc r)
  case Nil
  then show ?case by simp
next
  case (Cons x xs)
  then show ?case
    by (auto split: sum.splits dest!: sort_insert_mset)
qed

lemma list_sort_set: "list_sort key xs = Inr r \<Longrightarrow> set r = set xs"
  unfolding list_sort_def using sort_from_mset [of key "[]" xs r]
  by (metis add.left_neutral mset.simps(1) set_mset_mset)

lemma slice_to_subset: "set (slice_to xs n) \<subseteq> set xs"
  by (auto simp add: slice_to_def dest: in_set_takeD)

text \<open>
  Claim C4, as the code has it: every job that \<open>get_ready_uploads\<close> returns is in the queue,
  has status \<open>queued\<close>, has no scheduled time (the key is missing, \<open>null\<close> or empty) or a
  scheduled time that is not after \<open>now\<close>, and is for the platform of the filter when a
  non-empty filter is given.
\<close>

theorem get_ready_uploads_only_ready:
  assumes "get_ready_uploads fromisoformat now queue limit platform = Inr ready"
    and "e \<in> set ready"
  shows "e \<in> set queue \<and> e_status e = ''queued'' \<and>
     (case dict_get (e_scheduled_time e) of
        None \<Rightarrow> True
      | Some s \<Rightarrow> s = [] \<or> (\<exists>t. fromisoformat s = Inr t \<and> t \<le> now)) \<and>
     (\<forall>p. platform = Some p \<and> p \<noteq> [] \<longrightarrow> e_platform e = p)"
proof -
  from assms(1) obtain r0 r1 where
    loop: "ready_loop fromisoformat now platform queue = Inr r0"
    and sorted: "list_sort ready_key r0 = Inr r1"
    and cut: "ready = (case limit of None \<Rightarrow> r1
                        | Some n \<Rightarrow> if n \<noteq> 0 then slice_to r1 n else r1)"
    by (auto simp add: get_ready_uploads_def split: sum.splits)
  have "set ready \<subseteq> set r1"
    using cut slice_to_subset [of r1] by (auto split: option.splits if_splits)
  with assms(2) list_sort_set [OF sorted] have "e \<in> set r0" by auto
  with loop show ?thesis by (rule ready_loop_sound)
qed

theorem get_ready_uploads_only_ready_witness:
  "get_ready_uploads example_fromisoformat 63839707200000000 example_queue None (Some ''youtube'')
     = Inr [queued_entry ''youtube_20240101090004'' ''youtube'' Null 8,
            queued_entry ''youtube_20240101090003'' ''youtube'' (Str ''2024-01-01T10:00:00'') 5] \<and>
   queued_entry ''youtube_20240101090003'' ''youtube'' (Str ''2024-01-01T10:00:00'') 5
     \<in> set example_queue \<and>
   e_status (queued_entry ''youtube_20240101090003'' ''youtube'' (Str ''2024-01-01T10:00:00'') 5)
     = ''queued'' \<and>
   (\<exists>t. example_fromisoformat ''2024-01-01T10:00:00'' = Inr t \<and> t \<le> 63839707200000000) \<and>
   e_platform (queued_entry ''youtube_20240101090003'' ''youtube'' (Str ''2024-01-01T10:00:00'') 5)
     = ''youtube''"
proof -
  have run: "get_ready_uploads example_fromisoformat 63839707200000000 example_queue None
               (Some ''youtube'')
     = Inr [queued_entry ''youtube_20240101090004'' ''youtube'' Null 8,
            queued_entry ''youtube_20240101090003'' ''youtube'' (Str ''2024-01-01T10:00:00'') 5]"
    by (simp add: get_ready_uploads_def example_queue_def queued_entry_def truthy_str_def
      dict_get_def dict_get_default_def example_fromisoformat_def list_sort_def ready_key_def
      tuple_lt_def example_instants_def)
  have mem: "queued_entry ''youtube_20240101090003'' ''youtube'' (Str ''2024-01-01T10:00:00'') 5
     \<in> set [queued_entry ''youtube_20240101090004'' ''youtube'' Null 8,
            queued_entry ''youtube_20240101090003'' ''youtube'' (Str ''2024-01-01T10:00:00'') 5]"
    by simp
  show ?thesis
    using get_ready_uploads_only_ready [OF run mem] run
    by (simp add: queued_entry_def dict_get_def example_queue_def)
qed

text \<open>
  Claim C4 as stated fails for the empty string as platform filter: the filter is given,
  and a job for \<open>youtube\<close> is returned.
\<close>

theorem get_ready_uploads_empty_filter_counterexample:
  "get_ready_uploads example_fromisoformat 63839707200000000
      [queued_entry ''youtube_20240101090004'' ''youtube'' Null 8] None (Some [])
     = Inr [queued_entry ''youtube_20240101090004'' ''youtube'' Null 8] \<and>
   e_platform (queued_entry ''youtube_20240101090004'' ''youtube'' Null 8) \<noteq> []"
  by (simp add: get_ready_uploads_def queued_entry_def truthy_str_def
      dict_get_def dict_get_default_def list_sort_def ready_key_def tuple_lt_def)

text \<open>
  What \<open>get_ready_uploads\<close> does return: when the ready jobs are comparable, it returns them
  sorted by descending priority and ascending scheduled-time string, jobs with equal keys in
  the order of the queue (\<open>sort_key\<close> is the stable insertion sort of the library).
\<close>

lemma tuple_lt_comparable:
  assumes "e_priority x = e_priority y \<longrightarrow> (e_scheduled_time x = Null) = (e_scheduled_time y = Null)"
  shows "tuple_lt (ready_key x) (ready_key y) = Inr (ready_key_total x < ready_key_total y)"
  using assms
  by (cases "e_scheduled_time x"; cases "e_scheduled_time y")
     (auto simp add: tuple_lt_def ready_key_def ready_key_total_def dict_get_default_def)

lemma sort_insert_stable:
  assumes "\<forall>y \<in> set ys. tuple_lt (key x) (key y) = Inr (f x < f y)"
    and "sorted (map f ys)"
  shows "\<exists>r. sort_insert key x ys = Inr r \<and> sorted (map f r) \<and> mset r = add_mset x (mset ys) \<and>
             (\<forall>k. filter (\<lambda>y. k = f y) r = filter (\<lambda>y. k = f y) (ys @ [x]))"
  using assms
proof (induction ys)
  case Nil
  then show ?case by simp
next
  case (Cons y ys)
  show ?case
  proof (cases "f x < f y")
    case True
    then have above: "\<forall>z \<in> set (y # ys). f x < f z"
      using Cons.prems(2) by auto
    have "filter (\<lambda>z. k = f z) (x # y # ys) = filter (\<lambda>z. k = f z) ((y # ys) @ [x])" for k
    proof (cases "k = f x")
      case True
      with above have none: "\<forall>z \<in> set (y # ys). k \<noteq> f z" by fastforce
      then have "filter (\<lambda>z. k = f z) ys = []"
        unfolding filter_empty_conv by simp
      moreover from none have "k \<noteq> f y" by simp
      ultimately show ?thesis using True by simp
    next
      case False
      then show ?thesis by simp
    qed
    with True Cons.prems show ?thesis by auto
  next
    case False
    from Cons.prems have "\<forall>z \<in> set ys. tuple_lt (key x) (key z) = Inr (f x < f z)"
      and "sorted (map f ys)" by auto
    from Cons.IH [OF this] obtain r where
      r: "sort_insert key x ys = Inr r" "sorted (map f r)" "mset r = add_mset x (mset ys)"
         "\<forall>k. filter (\<lambda>y. k = f y) r = filter (\<lambda>y. k = f y) (ys @ [x])"
      by blast
    have "set r = insert x (set ys)"
      using r(3) by (metis set_mset_add_mset_insert set_mset_mset)
    with False Cons.prems(2) r(2) have "sorted (map f (y # r))" by auto
    with False Cons.prems(1) r show ?thesis by auto
  qed
qed

lemma sort_from_stable:
  assumes "\<forall>x \<in> set acc \<union> set xs. \<forall>y \<in> set acc \<union> set xs.
             tuple_lt (key x) (key y) = Inr (f x < f y)"
    and "sorted (map f acc)"
  shows "\<exists>r. sort_from key acc xs = Inr r \<and> sorted (map f r) \<and> mset r = mset acc + mset xs \<and>
             (\<forall>k. filter (\<lambda>y. k = f y) r = filter (\<lambda>y. k = f y) (acc @ xs))"
  using assms
proof (induction xs arbitrary: acc)
  case Nil
  then show ?case by simp
next
  case (Cons x xs)
  from Cons.prems have "\<forall>y \<in> set acc. tuple_lt (key x) (key y) = Inr (f x < f y)" by simp
  from sort_insert_stable [OF this Cons.prems(2)] obtain d where
    d: "sort_insert key x acc = Inr d" "sorted (map f d)" "mset d = add_mset x (mset acc)"
       "\<forall>k. filter (\<lambda>y. k = f y) d = filter (\<lambda>y. k = f y) (acc @ [x])"
    by blast
  have "set d = insert x (set acc)"
    using d(3) by (metis set_mset_add_mset_insert set_mset_mset)
  with Cons.prems(1) have "\<forall>a \<in> set d \<union> set xs. \<forall>b \<in> set d \<union> set xs.
             tuple_lt (key a) (key b) = Inr (f a < f b)" by simp
  from Cons.IH [OF this d(2)] obtain r where
    r: "sort_from key d xs = Inr r" "sorted (map f r)" "mset r = mset d + mset xs"
       "\<forall>k. filter (\<lambda>y. k = f y) r = filter (\<lambda>y. k = f y) (d @ xs)"
    by blast
  from d r show ?case by simp
qed

lemma list_sort_stable:
  assumes "\<forall>x \<in> set xs. \<forall>y \<in> set xs. tuple_lt (key x) (key y) = Inr (f x < f y)"
  shows "list_sort key xs = Inr (sort_key f xs)"
proof -
  from sort_from_stable [of "[]" xs key f] assms obtain r where
    r: "sort_from key [] xs = Inr r" "sorted (map f r)" "mset r = mset xs"
       "\<forall>k. filter (\<lambda>y. k = f y) r = filter (\<lambda>y. k = f y) xs"
    by auto
  have "sort_key f xs = r"
    using r(3) _ r(2) by (rule properties_for_sort_key) (simp add: r(4))
  with r(1) show ?thesis by (simp add: list_sort_def)
qed

lemma ready_loop_ready:
  "ready_loop fromisoformat now platform (e # queue) = Inr ready \<Longrightarrow>
   is_ready fromisoformat now platform e \<Longrightarrow>
     \<exists>r. ready_loop fromisoformat now platform queue = Inr r \<and> ready = e # r"
  by (auto simp add: is_ready_def truthy_str_def split: if_splits sum.splits option.splits)

lemma ready_loop_not_ready:
  "ready_loop fromisoformat now platform (e # queue) = Inr ready \<Longrightarrow>
   \<not> is_ready fromisoformat now platform e \<Longrightarrow>
     ready_loop fromisoformat now platform queue = Inr ready"
  by (auto simp add: is_ready_def truthy_str_def split: if_splits sum.splits option.splits)

lemma ready_loop_filter:
  "ready_loop fromisoformat now platform queue = Inr ready \<Longrightarrow>
     ready = filter (is_ready fromisoformat now platform) queue"
proof (induction queue arbitrary: ready)
  case Nil
  then show ?case by simp
next
  case (Cons e queue)
  show ?case
  proof (cases "is_ready fromisoformat now platform e")
    case True
    from ready_loop_ready [OF Cons.prems True] obtain r where
      "ready_loop fromisoformat now platform queue = Inr r" "ready = e # r" by blast
    with Cons.IH [of r] True show ?thesis by simp
  next
    case False
    from ready_loop_not_ready [OF Cons.prems False] Cons.IH [of ready] False
    show ?thesis by simp
  qed
qed

lemma get_ready_uploads_stable_order:
  assumes "ready_loop fromisoformat now platform queue = Inr ready"
    and "comparable_keys ready"
  shows "get_ready_uploads fromisoformat now queue None platform =
           Inr (sort_key ready_key_total (filter (is_ready fromisoformat now platform) queue))"
proof -
  have "\<forall>x \<in> set ready. \<forall>y \<in> set ready.
          tuple_lt (ready_key x) (ready_key y) = Inr (ready_key_total x < ready_key_total y)"
    using assms(2) by (auto simp add: comparable_keys_def intro!: tuple_lt_comparable)
  then have "list_sort ready_key ready = Inr (sort_key ready_key_total ready)"
    by (rule list_sort_stable)
  with assms(1) ready_loop_filter [OF assms(1)] show ?thesis
    by (simp add: get_ready_uploads_def)
qed

text \<open>
  Claim C1 fails on the code: two jobs of equal priority are enqueued with \<open>add_to_queue\<close>,
  the first without a scheduled time and the second for 10:00; at 12:00 both are ready, and
  sorting them compares \<open>None\<close> with a string, so \<open>get_ready_uploads\<close> raises \<open>TypeError\<close>
  instead of returning the unscheduled job first.
\<close>

theorem get_ready_uploads_mixed_keys_raise:
  "get_ready_uploads example_fromisoformat 63839707200000000
     (snd (add_to_queue example_strftime_sec example_isoformat 63839696401000000 63839696401000007
            (snd (add_to_queue example_strftime_sec example_isoformat 63839696400000000
                    63839696400000007 [] ''data/videos/a.mp4'' [(''title'', ''a'')] ''youtube''
                    None 5))
            ''data/videos/b.mp4'' [(''title'', ''b'')] ''youtube'' (Some 63839700000000000) 5))
     None None
   = Inl TypeError"
  by (simp add: get_ready_uploads_def add_to_queue_def truthy_str_def Let_def
      dict_get_def dict_get_default_def list_sort_def ready_key_def tuple_lt_def
      example_fromisoformat_def example_isoformat_def example_strftime_sec_def
      example_instants_def)

subsection \<open>Retention sweep\<close>

lemma readable_queue_Cons:
  "readable_queue fromisoformat (e # queue) =
     ((e_status e = ''completed'' \<longrightarrow> readable_completed_at fromisoformat e) \<and>
      readable_queue fromisoformat queue)"
  by (simp add: readable_queue_def)

lemma cleanup_loop_swept:
  assumes later: "\<forall>k. cutoff < clock k"
    and roundtrip: "\<forall>k. fromisoformat (isoformat (clock k)) = Inr (clock k)"
    and readable: "readable_queue fromisoformat queue"
  shows "cleanup_loop fromisoformat isoformat clock cutoff k queue =
           Inr (swept fromisoformat cutoff queue)"
  using readable
proof (induction queue arbitrary: k)
  case Nil
  then show ?case by (simp add: swept_def)
next
  case (Cons e queue)
  then have rest: "cleanup_loop fromisoformat isoformat clock cutoff k' queue =
           Inr (swept fromisoformat cutoff queue)" for k'
    by (simp add: readable_queue_Cons)
  have cons: "swept fromisoformat cutoff (e # queue) =
      (if e_status e = ''completed'' \<and>
           (case e_completed_at e of
              Str s \<Rightarrow> (case fromisoformat s of
                          Inl x \<Rightarrow> False
                        | Inr completed_dt \<Rightarrow> completed_dt \<le> cutoff)
            | _ \<Rightarrow> False)
       then swept fromisoformat cutoff queue else e # swept fromisoformat cutoff queue)"
    by (simp add: swept_def)
  show ?case
  proof (cases "e_status e = ''completed''")
    case False
    then show ?thesis by (simp add: rest cons)
  next
    case True
    with Cons.prems have "readable_completed_at fromisoformat e"
      by (simp add: readable_queue_Cons)
    then consider (absent) "e_completed_at e = Absent"
      | (str) s t where "e_completed_at e = Str s" "fromisoformat s = Inr t"
      by (auto simp add: readable_completed_at_def split: jstr.splits sum.splits)
    then show ?thesis
    proof cases
      case absent
      with True later roundtrip show ?thesis
        by (simp add: rest cons dict_get_default_def)
    next
      case str
      with True show ?thesis
        by (simp add: rest cons dict_get_default_def not_less)
    qed
  qed
qed

lemma filter_same_length: "length (filter P xs) = length xs \<Longrightarrow> filter P xs = xs"
  by (metis filter_True length_filter_less less_irrefl)

lemma count_list_filter:
  "count_list (filter P xs) x = (if P x then count_list xs x else 0)"
  by (induction xs) auto

lemma cleanup_completed_exact:
  assumes horizon: "0 < days"
    and range: "0 \<le> clock 0 - days * us_per_day" "clock 0 < datetime_limit"
    and forward: "\<forall>k. clock 0 \<le> clock k"
    and roundtrip: "\<forall>k. fromisoformat (isoformat (clock k)) = Inr (clock k)"
    and readable: "readable_queue fromisoformat queue"
  shows "cleanup_completed fromisoformat isoformat clock queue days =
           Inr (swept fromisoformat (clock 0 - days * us_per_day) queue)"
proof -
  let ?cutoff = "clock 0 - days * us_per_day"
  have day: "0 < us_per_day" by (simp add: us_per_day_def)
  have "days * us_per_day \<le> clock 0" using range(1) by simp
  then have "days * us_per_day < 3652059 * us_per_day"
    using range(2) by (simp add: datetime_limit_def us_per_day_def)
  then have "days < 3652059" using day by simp
  then have delta: "timedelta_days days = Inr (days * us_per_day)"
    using horizon by (simp add: timedelta_days_def)
  have "0 < days * us_per_day" using horizon day by simp
  then have below: "?cutoff < clock 0" by simp
  then have cutoff: "datetime_add (clock 0) (- (days * us_per_day)) = Inr ?cutoff"
    using range by (simp add: datetime_add_def)
  have later: "\<forall>k. ?cutoff < clock k"
    using forward below by (metis less_le_trans)
  have loop: "cleanup_loop fromisoformat isoformat clock ?cutoff k queue =
                Inr (swept fromisoformat ?cutoff queue)" for k
    by (rule cleanup_loop_swept [OF later roundtrip readable])
  have same: "length (swept fromisoformat ?cutoff queue) = length queue \<Longrightarrow>
                swept fromisoformat ?cutoff queue = queue"
    unfolding swept_def by (rule filter_same_length)
  have shorter: "length (swept fromisoformat ?cutoff queue) \<le> length queue"
    unfolding swept_def by simp
  show ?thesis
    using same shorter by (auto simp add: cleanup_completed_def delta cutoff loop)
qed

lemma cleanup_loop_unreadable:
  "\<not> readable_queue fromisoformat queue \<Longrightarrow>
     \<exists>x. cleanup_loop fromisoformat isoformat clock cutoff k queue = Inl x"
proof (induction queue arbitrary: k)
  case Nil
  then show ?case by (simp add: readable_queue_def)
next
  case (Cons e queue)
  show ?case
  proof (cases "readable_queue fromisoformat queue")
    case False
    from Cons.IH [OF False] obtain x y where
      x: "cleanup_loop fromisoformat isoformat clock cutoff k queue = Inl x"
      and y: "cleanup_loop fromisoformat isoformat clock cutoff (Suc k) queue = Inl y"
      by blast
    show ?thesis
    proof (cases "e_status e = ''completed''")
      case False
      with x show ?thesis by simp
    next
      case True
      show ?thesis
      proof (cases "case dict_get_default (e_completed_at e) (isoformat (clock k)) of
                      None \<Rightarrow> Inl TypeError | Some s \<Rightarrow> fromisoformat s")
        case (Inl a)
        with True show ?thesis by simp
      next
        case (Inr completed_dt)
        with True y show ?thesis by simp
      qed
    qed
  next
    case True
    with Cons.prems have bad: "e_status e = ''completed''"
      "\<not> readable_completed_at fromisoformat e"
      by (simp_all add: readable_queue_Cons)
    then show ?thesis
      by (auto simp add: readable_completed_at_def dict_get_default_def
          split: jstr.splits sum.splits)
  qed
qed

lemma cleanup_completed_unreadable:
  assumes "\<not> readable_queue fromisoformat queue"
  shows "\<exists>x. cleanup_completed fromisoformat isoformat clock queue days = Inl x"
proof (cases "timedelta_days days")
  case (Inl a)
  then show ?thesis by (simp add: cleanup_completed_def)
next
  case delta: (Inr delta)
  show ?thesis
  proof (cases "datetime_add (clock 0) (- delta)")
    case (Inl a)
    with delta show ?thesis by (simp add: cleanup_completed_def)
  next
    case (Inr cutoff)
    from cleanup_loop_unreadable [OF assms] obtain x where
      "cleanup_loop fromisoformat isoformat clock cutoff 1 queue = Inl x"
      by blast
    with delta Inr show ?thesis by (simp add: cleanup_completed_def)
  qed
qed

text \<open>
  Claim C5, as the code has it by design.  For a retention of at least one day, with a
  cutoff that is a representable date, a clock that does not run backwards, and a queue
  whose completion times can be read: \<open>cleanup_completed\<close> returns, keeps the order of the
  queue, removes every \<open>completed\<close> job whose completion time is before \<open>now\<close> minus the
  retention days, keeps every \<open>completed\<close> job whose completion time is after it, keeps every
  \<open>completed\<close> job without completion time, and keeps every job of another status, whatever
  its age.  Nothing is said of a job completed at the cutoff to the microsecond.
\<close>

theorem cleanup_completed_retention:
  assumes horizon: "0 < days"
    and range: "0 \<le> clock 0 - days * us_per_day" "clock 0 < datetime_limit"
    and forward: "\<forall>k. clock 0 \<le> clock k"
    and roundtrip: "\<forall>k. fromisoformat (isoformat (clock k)) = Inr (clock k)"
    and readable: "readable_queue fromisoformat queue"
  shows "\<exists>kept. cleanup_completed fromisoformat isoformat clock queue days = Inr kept \<and>
           subseq kept queue \<and>
           (\<forall>e \<in> set queue. e_status e \<noteq> ''completed'' \<longrightarrow>
                count_list kept e = count_list queue e) \<and>
           (\<forall>e \<in> set queue. e_status e = ''completed'' \<and> e_completed_at e = Absent \<longrightarrow>
                count_list kept e = count_list queue e) \<and>
           (\<forall>e \<in> set queue. \<forall>s t.
                e_status e = ''completed'' \<and> e_completed_at e = Str s \<and>
                fromisoformat s = Inr t \<and> clock 0 - days * us_per_day < t \<longrightarrow>
                count_list kept e = count_list queue e) \<and>
           (\<forall>e \<in> set queue. \<forall>s t.
                e_status e = ''completed'' \<and> e_completed_at e = Str s \<and>
                fromisoformat s = Inr t \<and> t < clock 0 - days * us_per_day \<longrightarrow>
                e \<notin> set kept)"
proof -
  let ?cutoff = "clock 0 - days * us_per_day"
  let ?kept = "swept fromisoformat ?cutoff queue"
  have run: "cleanup_completed fromisoformat isoformat clock queue days = Inr ?kept"
    by (rule cleanup_completed_exact [OF assms])
  have order: "subseq ?kept queue" by (simp add: swept_def)
  have others: "\<forall>e \<in> set queue. e_status e \<noteq> ''completed'' \<longrightarrow>
                count_list ?kept e = count_list queue e"
    by (simp add: swept_def count_list_filter)
  have untimed: "\<forall>e \<in> set queue. e_status e = ''completed'' \<and> e_completed_at e = Absent \<longrightarrow>
                count_list ?kept e = count_list queue e"
    by (simp add: swept_def count_list_filter)
  have recent: "\<forall>e \<in> set queue. \<forall>s t.
                e_status e = ''completed'' \<and> e_completed_at e = Str s \<and>
                fromisoformat s = Inr t \<and> ?cutoff < t \<longrightarrow>
                count_list ?kept e = count_list queue e"
    by (simp add: swept_def count_list_filter)
  have old: "\<forall>e \<in> set queue. \<forall>s t.
                e_status e = ''completed'' \<and> e_completed_at e = Str s \<and>
                fromisoformat s = Inr t \<and> t < ?cutoff \<longrightarrow>
                e \<notin> set ?kept"
    by (simp add: swept_def)
  from run order others untimed recent old show ?thesis by blast
qed

lemma example_cleanup_run:
  "cleanup_completed example_fromisoformat example_isoformat example_clock example_cleanup_queue 7
     = Inr [completed_entry ''youtube_20231226110000'' (Str ''2023-12-26T12:00:00''),
            completed_entry ''youtube_20231201110000'' Absent,
            queued_entry ''youtube_20230101090000'' ''youtube'' Null 5,
            (queued_entry ''youtube_20230101090001'' ''youtube'' Null 5)\<lparr>e_status := ''failed''\<rparr>,
            (queued_entry ''youtube_20230101090002'' ''youtube'' Null 5)\<lparr>e_status := ''uploading''\<rparr>]"
  by (simp add: cleanup_completed_def timedelta_days_def datetime_add_def us_per_day_def
      datetime_limit_def example_clock_def example_cleanup_queue_def completed_entry_def
      queued_entry_def dict_get_default_def example_fromisoformat_def example_isoformat_def
      example_instants_def)

theorem cleanup_completed_retention_witness:
  "\<exists>kept. cleanup_completed example_fromisoformat example_isoformat example_clock
              example_cleanup_queue 7 = Inr kept \<and>
     subseq kept example_cleanup_queue \<and>
     count_list kept (queued_entry ''youtube_20230101090000'' ''youtube'' Null 5) = 1 \<and>
     count_list kept (completed_entry ''youtube_20231201110000'' Absent) = 1 \<and>
     count_list kept (completed_entry ''youtube_20231226110000'' (Str ''2023-12-26T12:00:00'')) = 1 \<and>
     completed_entry ''youtube_20231224110000'' (Str ''2023-12-24T12:00:00'') \<notin> set kept"
proof -
  have range: "0 \<le> example_clock 0 - 7 * us_per_day" "example_clock 0 < datetime_limit"
    by (simp_all add: example_clock_def us_per_day_def datetime_limit_def)
  have forward: "\<forall>k. example_clock 0 \<le> example_clock k"
    by (simp add: example_clock_def)
  have roundtrip: "\<forall>k. example_fromisoformat (example_isoformat (example_clock k))
                         = Inr (example_clock k)"
    by (simp add: example_clock_def example_fromisoformat_def example_isoformat_def
        example_instants_def)
  have readable: "readable_queue example_fromisoformat example_cleanup_queue"
    by (simp add: readable_queue_def readable_completed_at_def example_cleanup_queue_def
        completed_entry_def queued_entry_def example_fromisoformat_def example_instants_def)
  from cleanup_completed_retention [of 7 example_clock example_fromisoformat
        example_isoformat example_cleanup_queue, OF _ range forward roundtrip readable]
  obtain kept where
    run: "cleanup_completed example_fromisoformat example_isoformat example_clock
              example_cleanup_queue 7 = Inr kept"
    and order: "subseq kept example_cleanup_queue"
    by auto
  from run example_cleanup_run have
    "kept = [completed_entry ''youtube_20231226110000'' (Str ''2023-12-26T12:00:00''),
            completed_entry ''youtube_20231201110000'' Absent,
            queued_entry ''youtube_20230101090000'' ''youtube'' Null 5,
            (queued_entry ''youtube_20230101090001'' ''youtube'' Null 5)\<lparr>e_status := ''failed''\<rparr>,
            (queued_entry ''youtube_20230101090002'' ''youtube'' Null 5)\<lparr>e_status := ''uploading''\<rparr>]"
    by simp
  then have facts:
    "count_list kept (queued_entry ''youtube_20230101090000'' ''youtube'' Null 5) = 1"
    "count_list kept (completed_entry ''youtube_20231201110000'' Absent) = 1"
    "count_list kept (completed_entry ''youtube_20231226110000'' (Str ''2023-12-26T12:00:00'')) = 1"
    "completed_entry ''youtube_20231224110000'' (Str ''2023-12-24T12:00:00'') \<notin> set kept"
    by (simp_all add: completed_entry_def queued_entry_def)
  from run order facts show ?thesis by blast
qed

text \<open>
  Claim C5 as stated fails.  A sweep with a negative number of days removes a \<open>completed\<close>
  job that has no completion time.  With a \<open>null\<close> completion time in the queue the sweep
  raises \<open>TypeError\<close>, and the job next to it, completed eight days before \<open>now\<close>, is not
  removed by a sweep with seven days.  And a job completed exactly seven days before \<open>now\<close>,
  which is not older than the cutoff, is removed by a sweep with seven days.
\<close>

theorem cleanup_completed_counterexample:
  "cleanup_completed example_fromisoformat example_isoformat example_clock
     [completed_entry ''youtube_20231201110000'' Absent] (- 1) = Inr [] \<and>
   cleanup_completed example_fromisoformat example_isoformat example_clock
     [completed_entry ''youtube_20231224110000'' (Str ''2023-12-24T12:00:00''),
      completed_entry ''youtube_20231201110000'' Null] 7 = Inl TypeError \<and>
   example_fromisoformat ''2023-12-24T12:00:00'' = Inr (example_clock 0 - 8 * us_per_day) \<and>
   cleanup_completed example_fromisoformat example_isoformat example_clock
     [completed_entry ''youtube_20231225110000'' (Str ''2023-12-25T12:00:00'')] 7 = Inr [] \<and>
   example_fromisoformat ''2023-12-25T12:00:00'' = Inr (example_clock 0 - 7 * us_per_day)"
  by (simp add: cleanup_completed_def timedelta_days_def datetime_add_def us_per_day_def
      datetime_limit_def example_clock_def completed_entry_def queued_entry_def
      dict_get_default_def example_fromisoformat_def example_isoformat_def example_instants_def)

subsection \<open>Job ids\<close>

text \<open>
  Claim C7 fails on the code: two calls of \<open>add_to_queue\<close> for the same platform, 0.4 seconds
  apart within the second 09:00:00, return the same id, whatever the rendering of the
  second is, and the queue then holds two jobs with that id.
\<close>

theorem add_to_queue_same_second_same_id:
  "fst (add_to_queue strftime_sec isoformat 63839696400000000 63839696400000007 queue
          ''data/videos/a.mp4'' metadata1 ''youtube'' scheduled_time1 5)
     = fst (add_to_queue strftime_sec isoformat 63839696400400000 63839696400400007
              (snd (add_to_queue strftime_sec isoformat 63839696400000000 63839696400000007 queue
                      ''data/videos/a.mp4'' metadata1 ''youtube'' scheduled_time1 5))
              ''data/videos/b.mp4'' metadata2 ''youtube'' scheduled_time2 5) \<and>
   \<not> distinct (map e_id
        (snd (add_to_queue strftime_sec isoformat 63839696400400000 63839696400400007
               (snd (add_to_queue strftime_sec isoformat 63839696400000000 63839696400000007
                       queue ''data/videos/a.mp4'' metadata1 ''youtube'' scheduled_time1 5))
               ''data/videos/b.mp4'' metadata2 ''youtube'' scheduled_time2 5)))"
  by (simp add: add_to_queue_def Let_def)

subsection \<open>Daily limit\<close>

lemma check_daily_limit_youtube:
  assumes "0 \<le> date" and "date - date mod us_per_day + us_per_day < datetime_limit"
  shows "check_daily_limit s daily_limit_cfg ''youtube'' date =
     (let daily_limit = (case daily_limit_cfg of None \<Rightarrow> 3 | Some l \<Rightarrow> l);
          used = int (length [r \<leftarrow> publish_records s.
                            published_on YOUTUBE (date - date mod us_per_day) r])
      in Inr \<lparr> li_limit = daily_limit, li_used = used,
               li_remaining = max 0 (daily_limit - used),
               li_limit_reached = (max 0 (daily_limit - used) = 0) \<rparr>)"
proof -
  have "0 \<le> date mod us_per_day" "date mod us_per_day \<le> date"
    using assms(1) by (simp_all add: us_per_day_def zmod_le_nonneg_dividend)
  then have sod: "0 \<le> date - date mod us_per_day + us_per_day"
    by (simp add: us_per_day_def)
  have same: "(\<lambda>r. pr_platform r = YOUTUBE \<and>
                 (case pr_published_at r of None \<Rightarrow> False
                  | Some u \<Rightarrow> date - date mod us_per_day \<le> u) \<and>
                 (case pr_published_at r of None \<Rightarrow> False
                  | Some u \<Rightarrow> u < date - date mod us_per_day + us_per_day) \<and>
                 pr_is_published r)
              = published_on YOUTUBE (date - date mod us_per_day)"
    by (auto simp add: published_on_def fun_eq_iff split: option.splits)
  show ?thesis
    using sod assms(2)
    by (simp add: check_daily_limit_def timedelta_days_def datetime_add_def sql_and_def
        Let_def same)
qed

lemma check_daily_limit_other_platform:
  assumes "platform \<noteq> ''youtube''"
    and "0 \<le> date" and "date - date mod us_per_day + us_per_day < datetime_limit"
  shows "check_daily_limit s daily_limit_cfg platform date = Inl ArgumentError"
proof -
  have "0 \<le> date mod us_per_day" "date mod us_per_day \<le> date"
    using assms(2) by (simp_all add: us_per_day_def zmod_le_nonneg_dividend)
  then have sod: "0 \<le> date - date mod us_per_day + us_per_day"
    by (simp add: us_per_day_def)
  show ?thesis
    using sod assms(1,3)
    by (simp add: check_daily_limit_def timedelta_days_def datetime_add_def sql_and_def Let_def)
qed

lemma check_daily_limit_youtube_example:
  "check_daily_limit example_publish_session (Some 3) ''youtube'' 63839707200000000
     = Inr \<lparr> li_limit = 3, li_used = 2, li_remaining = 1, li_limit_reached = False \<rparr>"
  by (simp add: check_daily_limit_def timedelta_days_def datetime_add_def sql_and_def Let_def
      us_per_day_def datetime_limit_def example_publish_session_def publish_record_def)

text \<open>
  Claim C6 fails on the code for every platform but \<open>youtube\<close>: with three records published
  on TikTok on the day, \<open>check_daily_limit\<close> for \<open>tiktok\<close> raises \<open>ArgumentError\<close> instead of
  reporting three used and none remaining.
\<close>

theorem check_daily_limit_tiktok_raises:
  "check_daily_limit example_publish_session (Some 3) ''tiktok'' 63839707200000000
     = Inl ArgumentError \<and>
   length [r \<leftarrow> publish_records example_publish_session.
             published_on TIKTOK (63839707200000000 - 63839707200000000 mod us_per_day) r] = 3"
  by (simp add: check_daily_limit_def timedelta_days_def datetime_add_def sql_and_def Let_def
      us_per_day_def datetime_limit_def example_publish_session_def publish_record_def
      published_on_def)

section \<open>The viral-candidate filter\<close>

lemma rnd_zero: "round_to_nearest rnd \<Longrightarrow> rnd 0 = 0"
proof -
  assume "round_to_nearest rnd"
  then have "\<forall>n::int. \<bar>n\<bar> \<le> 2 ^ 53 \<longrightarrow> rnd (real_of_int n) = real_of_int n"
    by (simp add: round_to_nearest_def)
  then have "rnd (real_of_int 0) = real_of_int 0" by (metis abs_zero zero_le_numeral zero_le_power)
  then show ?thesis by simp
qed

lemma rnd_int:
  "round_to_nearest rnd \<Longrightarrow> 0 \<le> n \<Longrightarrow> n \<le> 2880000000 \<Longrightarrow> rnd (real_of_int n) = real_of_int n"
proof -
  assume r: "round_to_nearest rnd" and n: "0 \<le> n" "n \<le> 2880000000"
  from r have "\<forall>n::int. \<bar>n\<bar> \<le> 2 ^ 53 \<longrightarrow> rnd (real_of_int n) = real_of_int n"
    by (simp add: round_to_nearest_def)
  moreover have "\<bar>n\<bar> \<le> 2 ^ 53" using n by simp
  ultimately show ?thesis by blast
qed

lemma rnd_mono: "round_to_nearest rnd \<Longrightarrow> x \<le> y \<Longrightarrow> rnd x \<le> rnd y"
  by (simp add: round_to_nearest_def)

lemma rnd_accurate:
  assumes "round_to_nearest rnd" and "1 / 10 ^ 12 \<le> x" and "x \<le> 10 ^ 300"
  shows "x * (1 - 1 / 2 ^ 53) \<le> rnd x \<and> rnd x \<le> x * (1 + 1 / 2 ^ 53)"
proof -
  have pos: "0 < x" using assms(2) by (smt (verit) divide_pos_pos zero_less_power)
  from assms(1) have "\<forall>x. 1 / 10 ^ 12 \<le> \<bar>x\<bar> \<and> \<bar>x\<bar> \<le> 10 ^ 300 \<longrightarrow> \<bar>rnd x - x\<bar> \<le> \<bar>x\<bar> / 2 ^ 53"
    by (simp add: round_to_nearest_def)
  with assms(2,3) pos have "\<bar>rnd x - x\<bar> \<le> x / 2 ^ 53" by (metis abs_of_pos)
  then have "rnd x - x \<le> x / 2 ^ 53" and "- (x / 2 ^ 53) \<le> rnd x - x"
    by linarith+
  then show ?thesis by (simp add: algebra_simps)
qed

lemma hours_nonpositive:
  assumes "round_to_nearest rnd" and "e \<le> 0"
  shows "rnd (rnd (real_of_int e / 1000000) / 3600) \<le> 0"
proof -
  have "real_of_int e / 1000000 \<le> 0" using assms(2) by simp
  then have "rnd (real_of_int e / 1000000) \<le> 0"
    using rnd_mono [OF assms(1)] rnd_zero [OF assms(1)] by metis
  then have "rnd (real_of_int e / 1000000) / 3600 \<le> 0" by simp
  then show ?thesis
    using rnd_mono [OF assms(1)] rnd_zero [OF assms(1)] by metis
qed

lemma hours_at_least:
  assumes "round_to_nearest rnd" and "0 \<le> m" and "m \<le> 800000" and "m * 3600000000 \<le> e"
  shows "real_of_int m \<le> rnd (rnd (real_of_int e / 1000000) / 3600)"
proof -
  have "real_of_int (m * 3600) \<le> real_of_int e / 1000000"
    using assms(4) by (simp add: field_simps)
  then have "rnd (real_of_int (m * 3600)) \<le> rnd (real_of_int e / 1000000)"
    by (rule rnd_mono [OF assms(1)])
  moreover have "rnd (real_of_int (m * 3600)) = real_of_int (m * 3600)"
    using assms(2,3) by (intro rnd_int [OF assms(1)]) simp_all
  ultimately have "real_of_int m \<le> rnd (real_of_int e / 1000000) / 3600" by simp
  then have "rnd (real_of_int m) \<le> rnd (rnd (real_of_int e / 1000000) / 3600)"
    by (rule rnd_mono [OF assms(1)])
  moreover have "rnd (real_of_int m) = real_of_int m"
    using assms(2,3) by (intro rnd_int [OF assms(1)]) simp_all
  ultimately show ?thesis by simp
qed

lemma hours_inside:
  assumes "round_to_nearest rnd" and "m \<le> 800000" and "0 < e" and "e < m * 3600000000"
  shows "0 < rnd (rnd (real_of_int e / 1000000) / 3600) \<and>
         rnd (rnd (real_of_int e / 1000000) / 3600) < real_of_int m"
proof -
  define u :: real where "u = 1 / 2 ^ 53"
  define s where "s = real_of_int e / 1000000"
  define q where "q = rnd s / 3600"
  have u: "0 < u" "u \<le> 1" "u * 8640000000000000 < 1"
    by (simp_all add: u_def)
  have e1: "1 \<le> real_of_int e" using assms(3) by simp
  have "e < 800000 * 3600000000" using assms(2,4) by linarith
  then have "e \<le> 2880000000000000" by simp
  then have "real_of_int e \<le> real_of_int 2880000000000000" by (simp only: of_int_le_iff)
  then have e2: "real_of_int e \<le> 2880000000000000" by simp
  have s_lo: "1 / 10 ^ 12 \<le> s" using e1 by (simp add: s_def)
  have "s \<le> 2880000000" using e2 by (simp add: s_def)
  moreover have "(2880000000::real) \<le> 10 ^ 300" by simp
  ultimately have s_hi: "s \<le> 10 ^ 300" by linarith
  from rnd_accurate [OF assms(1) s_lo s_hi]
  have rs: "s * (1 - u) \<le> rnd s" "rnd s \<le> s * (1 + u)" by (simp_all add: u_def)
  have s_pos: "0 < s" using e1 by (simp add: s_def)
  have "1 / 1000000 \<le> s" using e1 by (simp add: s_def)
  moreover have "1 / 2 \<le> 1 - u" by (simp add: u_def)
  ultimately have "1 / 1000000 * (1 / 2) \<le> s * (1 - u)"
    by (intro mult_mono) simp_all
  with rs(1) have "1 / 2000000 \<le> rnd s" by simp
  then have q_lo: "1 / 10 ^ 12 \<le> q" by (simp add: q_def)
  have q_le: "q \<le> s * (1 + u) / 3600" using rs(2) by (simp add: q_def)
  have "s * (1 + u) \<le> 2880000000 * 2"
    using \<open>s \<le> 2880000000\<close> u(1,2) s_pos by (intro mult_mono) simp_all
  then have "q \<le> 2880000000 * 2 / 3600" using q_le by simp
  moreover have "(2880000000 * 2 / 3600 ::real) \<le> 10 ^ 300" by simp
  ultimately have q_hi: "q \<le> 10 ^ 300" by linarith
  from rnd_accurate [OF assms(1) q_lo q_hi]
  have rq: "q * (1 - u) \<le> rnd q" "rnd q \<le> q * (1 + u)" by (simp_all add: u_def)
  have "(0::real) < 1 / 10 ^ 12" by simp
  with q_lo have q_pos: "0 < q" by linarith
  have "0 < q * (1 - u)" using q_pos u(3) u(1) by (intro mult_pos_pos) simp_all
  with rq(1) have pos: "0 < rnd q" by linarith
  have "q * (1 + u) \<le> s * (1 + u) / 3600 * (1 + u)"
    using q_le u(1) by (intro mult_right_mono) simp_all
  with rq(2) have "rnd q \<le> s * (1 + u) / 3600 * (1 + u)" by linarith
  also have "\<dots> = real_of_int e * ((1 + u) * (1 + u)) / 3600000000"
    by (simp add: s_def)
  also have "\<dots> \<le> real_of_int e * (1 + 3 * u) / 3600000000"
  proof -
    have "u * u \<le> u * 1" using u(1,2) by (intro mult_left_mono) simp_all
    then have "(1 + u) * (1 + u) \<le> 1 + 3 * u" by (simp add: algebra_simps)
    then have "real_of_int e * ((1 + u) * (1 + u)) \<le> real_of_int e * (1 + 3 * u)"
      using e1 by (intro mult_left_mono) simp_all
    then show ?thesis by (simp add: divide_right_mono)
  qed
  also have "\<dots> < (real_of_int e + 1) / 3600000000"
  proof -
    have "real_of_int e * u \<le> 2880000000000000 * u"
      using e2 u(1) by (intro mult_right_mono) simp_all
    then have "real_of_int e * (3 * u) < 1" using u(3) by simp
    then have "real_of_int e * (1 + 3 * u) < real_of_int e + 1" by (simp add: algebra_simps)
    then show ?thesis by (simp add: divide_strict_right_mono)
  qed
  also have "\<dots> \<le> real_of_int m"
  proof -
    have "e + 1 \<le> m * 3600000000" using assms(4) by simp
    then have "real_of_int (e + 1) \<le> real_of_int (m * 3600000000)" by (simp only: of_int_le_iff)
    then have "real_of_int e + 1 \<le> real_of_int m * 3600000000" by simp
    then show ?thesis by simp
  qed
  finally show ?thesis using pos by (simp add: q_def s_def)
qed

lemma hours_nonnegative:
  assumes "round_to_nearest rnd" and "0 \<le> e"
  shows "0 \<le> rnd (rnd (real_of_int e / 1000000) / 3600)"
proof -
  have "0 \<le> real_of_int e / 1000000" using assms(2) by simp
  then have "0 \<le> rnd (real_of_int e / 1000000)"
    using rnd_mono [OF assms(1)] rnd_zero [OF assms(1)] by metis
  then have "0 \<le> rnd (real_of_int e / 1000000) / 3600" by simp
  then show ?thesis
    using rnd_mono [OF assms(1)] rnd_zero [OF assms(1)] by metis
qed

lemma age_test:
  assumes "round_to_nearest rnd" and "max_age_hours \<le> 800000"
  shows "(hours_since_published rnd now published_at \<ge> real_of_int max_age_hours \<or>
          hours_since_published rnd now published_at \<le> 0) =
         (\<not> (0 < now - published_at \<and> now - published_at < max_age_hours * 3600000000))"
proof -
  let ?e = "now - published_at"
  let ?h = "rnd (rnd (real_of_int ?e / 1000000) / 3600)"
  consider (past) "?e \<le> 0" | (inside) "0 < ?e" "?e < max_age_hours * 3600000000"
    | (old) "0 < ?e" "max_age_hours * 3600000000 \<le> ?e"
    by linarith
  then have "(?h \<ge> real_of_int max_age_hours \<or> ?h \<le> 0) =
         (\<not> (0 < ?e \<and> ?e < max_age_hours * 3600000000))"
  proof cases
    case past
    with hours_nonpositive [OF assms(1) past] show ?thesis by simp
  next
    case inside
    with hours_inside [OF assms inside] show ?thesis by simp
  next
    case old
    show ?thesis
    proof (cases "0 \<le> max_age_hours")
      case True
      from hours_at_least [OF assms(1) True assms(2) old(2)] old show ?thesis by simp
    next
      case False
      then have "real_of_int max_age_hours \<le> 0" by simp
      moreover have "0 \<le> ?h" by (rule hours_nonnegative [OF assms(1)]) (use old(1) in simp)
      ultimately show ?thesis using old by simp
    qed
  qed
  then show ?thesis by (simp add: hours_since_published_def)
qed

lemma filter_step_accepts:
  assumes "round_to_nearest rnd" and "max_age_hours \<le> 800000"
    and "filter_step isodate_duration isodate_datetime py_int rnd now max_age_hours min_vph v = Inr r"
  shows "(r \<noteq> None) =
       viral_candidate isodate_duration isodate_datetime py_int rnd now max_age_hours min_vph v"
proof (cases "snippet_categoryId v = Some ''10'' \<or> \<not> is_short isodate_duration v 60")
  case True
  with assms(3) have "r = None" by (auto simp add: filter_step_def split: if_splits)
  moreover from True have "\<not> viral_candidate isodate_duration isodate_datetime py_int rnd now
      max_age_hours min_vph v"
    by (auto simp add: viral_candidate_def is_short_def Let_def)
  ultimately show ?thesis by simp
next
  case False
  then have short: "snippet_categoryId v \<noteq> Some ''10''"
    "0 < parse_duration isodate_duration (contentDetails_duration v)"
    "parse_duration isodate_duration (contentDetails_duration v) \<le> 60"
    by (simp_all add: is_short_def Let_def)
  from False assms(3) obtain published_at where
    pub: "isodate_datetime (snippet_publishedAt v) = Inr published_at"
    by (cases "isodate_datetime (snippet_publishedAt v)") (simp_all add: filter_step_def)
  let ?hours = "hours_since_published rnd now published_at"
  show ?thesis
  proof (cases "0 < now - published_at \<and> now - published_at < max_age_hours * 3600000000")
    case age_out: False
    then have "?hours \<ge> real_of_int max_age_hours \<or> ?hours \<le> 0"
      using age_test [OF assms(1,2), of now published_at] by blast
    with False pub assms(3) have "r = None"
      by (simp add: filter_step_def Let_def)
    with age_out pub show ?thesis by (auto simp add: viral_candidate_def)
  next
    case age_in: True
    then have inside: "\<not> (?hours \<ge> real_of_int max_age_hours \<or> ?hours \<le> 0)"
      using age_test [OF assms(1,2), of now published_at] by blast
    from False pub inside assms(3) obtain view_count vph where
      views: "int_or_zero py_int (statistics_viewCount v) = Inr view_count"
      and vph: "views_per_hour rnd view_count ?hours = Inr vph"
      by (simp add: filter_step_def Let_def split: sum.splits)
    have "(r \<noteq> None) = (\<not> float_lt_int vph min_vph)"
      using False pub inside views vph assms(3)
      by (auto simp add: filter_step_def Let_def split: sum.splits if_splits)
    with short pub age_in views vph show ?thesis
      by (simp add: viral_candidate_def)
  qed
qed

lemma filter_step_video_id:
  "filter_step isodate_duration isodate_datetime py_int rnd now max_age_hours min_vph v
     = Inr (Some d) \<Longrightarrow> vd_video_id d = yt_id v"
  by (auto simp add: filter_step_def Let_def split: if_splits sum.splits)

text \<open>
  Claim C8, as the code has it: with floats rounded to nearest and a maximal age of at most
  800000 hours, a run of \<open>filter_videos\<close> that returns has accepted exactly the items that
  are viral candidates, in their order: not music, duration above 0 and at most 60 seconds,
  age above 0 and below the maximal age, views per hour as computed at least the floor.
\<close>

theorem filter_videos_accepts:
  assumes "round_to_nearest rnd" and "max_age_hours \<le> 800000"
    and "filter_videos isodate_duration isodate_datetime py_int rnd now videos
             max_age_hours min_vph = Inr filtered"
  shows "map vd_video_id filtered =
           map yt_id [v \<leftarrow> videos. viral_candidate isodate_duration isodate_datetime py_int
                                   rnd now max_age_hours min_vph v]"
  using assms(3)
proof (induction videos arbitrary: filtered)
  case Nil
  then show ?case by simp
next
  case (Cons v videos)
  from Cons.prems obtain r rest where
    step: "filter_step isodate_duration isodate_datetime py_int rnd now max_age_hours
             min_vph v = Inr r"
    and tail: "filter_videos isodate_duration isodate_datetime py_int rnd now videos
             max_age_hours min_vph = Inr rest"
    and out: "filtered = (case r of None \<Rightarrow> rest | Some d \<Rightarrow> d # rest)"
    by (auto split: sum.splits)
  have ih: "map vd_video_id rest =
           map yt_id [v \<leftarrow> videos. viral_candidate isodate_duration isodate_datetime py_int
                                   rnd now max_age_hours min_vph v]"
    using Cons.IH [OF tail] .
  show ?case
  proof (cases r)
    case None
    with filter_step_accepts [OF assms(1,2) step] out ih show ?thesis by simp
  next
    case (Some d)
    with filter_step_accepts [OF assms(1,2) step]
      filter_step_video_id [of _ _ _ _ _ _ _ v d] step out ih
    show ?thesis by simp
  qed
qed

lemma round_to_nearest_id: "round_to_nearest (\<lambda>x. x)"
  by (simp add: round_to_nearest_def)

lemma views_per_hour_overflow:
  "0 < hours \<Longrightarrow> float_overflow \<le> \<bar>real_of_int view_count\<bar> \<Longrightarrow>
     views_per_hour rnd view_count hours = Inl OverflowError"
  by (simp add: views_per_hour_def int_to_float_def)

lemma example_filter_run:
  "filter_videos example_isodate_duration example_isodate_datetime example_py_int (\<lambda>x. x)
      63839707200000000
      [example_video ''s45'' ''24'' ''PT45S'' ''2024-01-01T10:00:00Z'',
       example_video ''s90'' ''24'' ''PT1M30S'' ''2024-01-01T10:00:00Z'',
       example_video ''m45'' ''10'' ''PT45S'' ''2024-01-01T10:00:00Z'',
       example_video ''old'' ''24'' ''PT45S'' ''2023-12-30T10:00:00Z''] 48 10000
     = Inr [\<lparr> vd_video_id = ''s45'', vd_title = ''clip'', vd_channel = ''channel'',
              vd_views = 20000, vd_likes = 150, vd_vph = 10000,
              vd_published_at = 63839700000000000, vd_duration = 45,
              vd_url = ''https://www.youtube.com/shorts/s45'' \<rparr>]"
  by (simp add: filter_step_def is_short_def parse_duration_def hours_since_published_def
      views_per_hour_def int_to_float_def float_truediv_def float_lt_int_def float_to_int_def
      float_overflow_def trunc_def int_or_zero_def Let_def example_video_def
      example_isodate_duration_def example_isodate_datetime_def example_py_int_def)

theorem filter_videos_accepts_witness:
  "filter_videos example_isodate_duration example_isodate_datetime example_py_int (\<lambda>x. x)
      63839707200000000
      [example_video ''s45'' ''24'' ''PT45S'' ''2024-01-01T10:00:00Z'',
       example_video ''s90'' ''24'' ''PT1M30S'' ''2024-01-01T10:00:00Z'',
       example_video ''m45'' ''10'' ''PT45S'' ''2024-01-01T10:00:00Z'',
       example_video ''old'' ''24'' ''PT45S'' ''2023-12-30T10:00:00Z''] 48 10000
     = Inr [\<lparr> vd_video_id = ''s45'', vd_title = ''clip'', vd_channel = ''channel'',
              vd_views = 20000, vd_likes = 150, vd_vph = 10000,
              vd_published_at = 63839700000000000, vd_duration = 45,
              vd_url = ''https://www.youtube.com/shorts/s45'' \<rparr>] \<and>
   map yt_id [v \<leftarrow> [example_video ''s45'' ''24'' ''PT45S'' ''2024-01-01T10:00:00Z'',
                     example_video ''s90'' ''24'' ''PT1M30S'' ''2024-01-01T10:00:00Z'',
                     example_video ''m45'' ''10'' ''PT45S'' ''2024-01-01T10:00:00Z'',
                     example_video ''old'' ''24'' ''PT45S'' ''2023-12-30T10:00:00Z''].
                viral_candidate example_isodate_duration example_isodate_datetime example_py_int
                  (\<lambda>x. x) 63839707200000000 48 10000 v] = [''s45'']"
proof -
  have age: "(48::int) \<le> 800000" by simp
  show ?thesis
    using filter_videos_accepts [OF round_to_nearest_id age example_filter_run]
      example_filter_run
    by simp
qed

text \<open>
  Claim C8 as stated fails at the ceiling: an item of exactly 60 seconds, two hours old with
  20000 views, is accepted.
\<close>

theorem filter_videos_sixty_seconds_counterexample:
  "filter_videos example_isodate_duration example_isodate_datetime example_py_int (\<lambda>x. x)
      63839707200000000
      [example_video ''s60'' ''24'' ''PT1M'' ''2024-01-01T10:00:00Z''] 48 10000
     = Inr [\<lparr> vd_video_id = ''s60'', vd_title = ''clip'', vd_channel = ''channel'',
              vd_views = 20000, vd_likes = 150, vd_vph = 10000,
              vd_published_at = 63839700000000000, vd_duration = 60,
              vd_url = ''https://www.youtube.com/shorts/s60'' \<rparr>] \<and>
   parse_duration example_isodate_duration
     (contentDetails_duration (example_video ''s60'' ''24'' ''PT1M'' ''2024-01-01T10:00:00Z'')) = 60"
  by (simp add: filter_step_def is_short_def parse_duration_def hours_since_published_def
      views_per_hour_def int_to_float_def float_truediv_def float_lt_int_def float_to_int_def
      float_overflow_def trunc_def int_or_zero_def Let_def example_video_def
      example_isodate_duration_def example_isodate_datetime_def example_py_int_def)

end
